theory Spec2Isabelle
  imports Main
begin

unbundle bit_operations_syntax

section \<open>Exceptions\<close>

text \<open>
  What the source can raise, as values: \<open>std::out_of_range\<close> from \<open>map::at\<close>, the
  \<open>runtime_error\<close> of a header lookup that finds nothing, and a failed \<open>assert\<close>.
  A function that can raise returns \<open>exception + 'a\<close>, with \<^term>\<open>Inl\<close> the exception.
\<close>

datatype exception = out_of_range | runtime_error | assertion_failure

section \<open>Strings as the source uses them\<close>

text \<open>
  A \<open>std::string\<close> is a byte sequence, here \<^typ>\<open>string\<close>. The validator uses
  \<open>substr\<close>, \<open>rfind\<close> and \<open>find\<close>; \<open>string::npos\<close> is \<^term>\<open>None\<close>.
  \<open>substr(pos, n)\<close> raises when \<open>pos\<close> exceeds the size; the source only calls it with
  \<open>pos = 0\<close> and with \<open>pos = last_space + 1\<close>, which never exceed the size.
\<close>

definition substr :: "string \<Rightarrow> nat \<Rightarrow> nat \<Rightarrow> string" where
  "substr s pos n = take n (drop pos s)"

definition substr_from :: "string \<Rightarrow> nat \<Rightarrow> string" where
  "substr_from s pos = drop pos s"

text \<open>\<open>rfind\<close> with a needle of one character: the last position holding it.\<close>

fun rfind :: "string \<Rightarrow> char \<Rightarrow> nat option" where
  "rfind [] c = None"
| "rfind (x # xs) c =
     (case rfind xs c of
        Some i \<Rightarrow> Some (Suc i)
      | None \<Rightarrow> if x = c then Some 0 else None)"

text \<open>\<open>find\<close>: the first position at which the needle occurs.\<close>

fun find_str :: "string \<Rightarrow> string \<Rightarrow> nat option" where
  "find_str [] pat = (if pat = [] then Some 0 else None)"
| "find_str (x # xs) pat =
     (if take (length pat) (x # xs) = pat then Some 0
      else map_option Suc (find_str xs pat))"

section \<open>SHA-1 and Base64 (the two library filters of the accept key)\<close>

text \<open>
  \<open>create_handshake_response\<close> pipes the key through \<open>CryptoPP::SHA1\<close> and
  \<open>CryptoPP::Base64Encoder\<close> (line breaks off). Both are library code; they are written
  out here as the functions those classes compute: SHA-1 on 32-bit words (padding, message
  schedule, eighty rounds per 512-bit block) and Base64 with the standard alphabet and
  \<open>=\<close> padding.
\<close>

type_synonym word32 = nat

text \<open>
  A 32-bit word is a natural number below \<open>2 ^ 32\<close>; addition wraps (\<open>add32\<close>),
  complement is taken within 32 bits (\<open>not32\<close>) and \<open>rotl\<close> is the circular left shift.
\<close>

definition add32 :: "word32 \<Rightarrow> word32 \<Rightarrow> word32" where
  "add32 a b = (a + b) mod 4294967296"

definition not32 :: "word32 \<Rightarrow> word32" where
  "not32 a = 4294967295 - a"

definition rotl :: "nat \<Rightarrow> word32 \<Rightarrow> word32" where
  "rotl n x = (x * 2 ^ n) mod 4294967296 + x div 2 ^ (32 - n)"

text \<open>Padding: the byte \<open>0x80\<close>, zeros up to 56 modulo 64, the bit length in 8 bytes.\<close>

definition length_bytes :: "nat \<Rightarrow> nat list" where
  "length_bytes n = map (\<lambda>i. n div 2 ^ (8 * i) mod 256) [7, 6, 5, 4, 3, 2, 1, 0]"

definition sha1_pad :: "string \<Rightarrow> nat list" where
  "sha1_pad m = map of_char m @ [0x80] @ replicate ((119 - length m mod 64) mod 64) 0
                @ length_bytes (8 * length m)"

fun be_words :: "nat list \<Rightarrow> word32 list" where
  "be_words (a # b # c # d # r) = (((a * 256 + b) * 256 + c) * 256 + d) # be_words r"
| "be_words _ = []"

fun blocks :: "word32 list \<Rightarrow> word32 list list" where
  "blocks [] = []"
| "blocks (x # xs) = take 16 (x # xs) # blocks (drop 16 (x # xs))"

text \<open>
  The message schedule, kept as a window of the last sixteen words: the next word is
  \<open>rotl 1 (W(t-3) XOR W(t-8) XOR W(t-14) XOR W(t-16))\<close>.
\<close>

definition next_word :: "word32 list \<Rightarrow> word32" where
  "next_word win = rotl 1 (win ! 13 XOR win ! 8 XOR win ! 2 XOR win ! 0)"

fun expand :: "nat \<Rightarrow> word32 list \<Rightarrow> word32 list" where
  "expand 0 win = []"
| "expand (Suc n) win = next_word win # expand n (tl win @ [next_word win])"

definition schedule :: "word32 list \<Rightarrow> word32 list" where
  "schedule blk = blk @ expand 64 blk"

definition sha1_f :: "nat \<Rightarrow> word32 \<Rightarrow> word32 \<Rightarrow> word32 \<Rightarrow> word32" where
  "sha1_f t b c d =
     (if t < 20 then (b AND c) OR (not32 b AND d)
      else if t < 40 then b XOR c XOR d
      else if t < 60 then (b AND c) OR (b AND d) OR (c AND d)
      else b XOR c XOR d)"

definition sha1_k :: "nat \<Rightarrow> word32" where
  "sha1_k t =
     (if t < 20 then 0x5A827999 else if t < 40 then 0x6ED9EBA1
      else if t < 60 then 0x8F1BBCDC else 0xCA62C1D6)"

type_synonym hstate = "word32 \<times> word32 \<times> word32 \<times> word32 \<times> word32"

fun sha1_rounds :: "nat \<Rightarrow> word32 list \<Rightarrow> hstate \<Rightarrow> hstate" where
  "sha1_rounds t [] h = h"
| "sha1_rounds t (w # ws) (a, b, c, d, e) =
     sha1_rounds (t + 1) ws
       (add32 (add32 (add32 (add32 (rotl 5 a) (sha1_f t b c d)) e) (sha1_k t)) w,
        a, rotl 30 b, c, d)"

fun add_state :: "hstate \<Rightarrow> hstate \<Rightarrow> hstate" where
  "add_state (a, b, c, d, e) (a', b', c', d', e') =
     (add32 a a', add32 b b', add32 c c', add32 d d', add32 e e')"

definition compress :: "hstate \<Rightarrow> word32 list \<Rightarrow> hstate" where
  "compress h blk = add_state h (sha1_rounds 0 (schedule blk) h)"

definition sha1_init :: hstate where
  "sha1_init = (0x67452301, 0xEFCDAB89, 0x98BADCFE, 0x10325476, 0xC3D2E1F0)"

fun word_bytes :: "word32 \<Rightarrow> nat list" where
  "word_bytes w = [w div 16777216, w div 65536 mod 256, w div 256 mod 256, w mod 256]"

fun state_bytes :: "hstate \<Rightarrow> nat list" where
  "state_bytes (a, b, c, d, e) = concat (map word_bytes [a, b, c, d, e])"

definition sha1_digest :: "string \<Rightarrow> nat list" where
  "sha1_digest m = state_bytes (foldl compress sha1_init (blocks (be_words (sha1_pad m))))"

definition sha1 :: "string \<Rightarrow> string" where
  "sha1 m = map char_of (sha1_digest m)"

definition base64_alphabet :: string where
  "base64_alphabet = ''ABCDEFGHIJKLMNOPQRSTUVWXYZabcdefghijklmnopqrstuvwxyz0123456789+/''"

definition base64_char :: "nat \<Rightarrow> char" where
  "base64_char n = base64_alphabet ! (n mod 64)"

fun base64_bytes :: "nat list \<Rightarrow> string" where
  "base64_bytes [] = []"
| "base64_bytes [a] =
     [base64_char (a div 4), base64_char ((a mod 4) * 16), CHR ''='', CHR ''='']"
| "base64_bytes [a, b] =
     [base64_char (a div 4), base64_char ((a mod 4) * 16 + b div 16),
      base64_char ((b mod 16) * 4), CHR ''='']"
| "base64_bytes (a # b # c # r) =
     [base64_char (a div 4), base64_char ((a mod 4) * 16 + b div 16),
      base64_char ((b mod 16) * 4 + c div 64), base64_char (c mod 64)] @ base64_bytes r"

definition base64 :: "string \<Rightarrow> string" where
  "base64 s = base64_bytes (map of_char s)"

section \<open>HTTP messages\<close>

text \<open>
  \<open>HTTPRequest\<close> and \<open>HTTPResponse\<close> both derive from an HTTP message holding a first
  line, a header list and a body; the response also remembers its request.
\<close>

record HTTPMessage =
  first_line :: string
  headers :: "(string \<times> string) list"
  body :: string

type_synonym HTTPRequest = HTTPMessage

record HTTPResponse = HTTPMessage +
  request :: "HTTPRequest option"

text \<open>
  Modelled from the spec: the header accessors of the HTTP message class, which the source
  file only calls. A header "exists" when the list has an entry with that key;
  \<open>get_header_value\<close> is the value of the first such entry and raises when there is none
  (\<^term>\<open>None\<close> here). The validator only asks for a value behind \<open>has_header\<close>.
\<close>

definition get_header_value :: "'a HTTPMessage_scheme \<Rightarrow> string \<Rightarrow> string option" where
  "get_header_value m k = map_of (headers m) k"

definition has_header :: "'a HTTPMessage_scheme \<Rightarrow> string \<Rightarrow> bool" where
  "has_header m k = (get_header_value m k \<noteq> None)"

text \<open>
  Modelled from the spec: the builders of the response class (\<open>set_request\<close>,
  \<open>set_first_line\<close>, \<open>add_header\<close>, \<open>read_in_body\<close>), its serialisation \<open>str\<close> and its
  \<open>status_code\<close> (the second blank-separated token of the status line).
\<close>

definition empty_response :: HTTPResponse where
  "empty_response = \<lparr>first_line = [], headers = [], body = [], request = None\<rparr>"

definition set_request :: "HTTPRequest \<Rightarrow> HTTPResponse \<Rightarrow> HTTPResponse" where
  "set_request r resp = resp\<lparr>request := Some r\<rparr>"

definition set_first_line :: "string \<Rightarrow> HTTPResponse \<Rightarrow> HTTPResponse" where
  "set_first_line l resp = resp\<lparr>first_line := l\<rparr>"

definition add_header :: "string \<times> string \<Rightarrow> HTTPResponse \<Rightarrow> HTTPResponse" where
  "add_header h resp = resp\<lparr>headers := headers resp @ [h]\<rparr>"

definition read_in_body :: "string \<Rightarrow> HTTPResponse \<Rightarrow> HTTPResponse" where
  "read_in_body b resp = resp\<lparr>body := body resp @ b\<rparr>"

definition CRLF :: string where
  "CRLF = [CHR 0x0D, CHR 0x0A]"

definition str :: "HTTPResponse \<Rightarrow> string" where
  "str resp =
     first_line resp @ CRLF
     @ concat (map (\<lambda>(k, v). k @ '': '' @ v @ CRLF) (headers resp))
     @ CRLF @ body resp"

definition status_code :: "HTTPResponse \<Rightarrow> string" where
  "status_code resp =
     takeWhile (\<lambda>c. c \<noteq> CHR '' '') (drop 1 (dropWhile (\<lambda>c. c \<noteq> CHR '' '') (first_line resp)))"

section \<open>Handshake validation and response\<close>

definition WS_MAGIC_STRING :: string where
  "WS_MAGIC_STRING = ''258EAFA5-E914-47DA-95CA-C5AB0DC85B11''"

definition is_valid_handshake_request :: "HTTPRequest \<Rightarrow> bool" where
  "is_valid_handshake_request req =
     (if substr (first_line req) 0 3 \<noteq> ''GET'' then False
      else case rfind (first_line req) CHR '' '' of
        None \<Rightarrow> False
      | Some last_space \<Rightarrow>
          if substr_from (first_line req) (last_space + 1) \<noteq> ''HTTP/1.1'' \<and>
             substr_from (first_line req) (last_space + 1) \<noteq> ''HTTP/2''
          then False
          else if \<not> has_header req ''Connection'' \<or>
                  (case get_header_value req ''Connection'' of
                     None \<Rightarrow> True
                   | Some v \<Rightarrow> find_str v ''Upgrade'' = None)
          then False
          else if \<not> has_header req ''Upgrade'' \<or>
                  get_header_value req ''Upgrade'' \<noteq> Some ''websocket''
          then False
          else if \<not> has_header req ''Sec-WebSocket-Key'' then False
          else True)"

definition error_response :: "string \<Rightarrow> HTTPRequest \<Rightarrow> HTTPResponse" where
  "error_response line req =
     read_in_body []
       (add_header (''Connection'', ''close'')
         (add_header (''Content-Length'', ''0'')
           (set_first_line line (set_request req empty_response))))"

definition create_handshake_response :: "HTTPRequest \<Rightarrow> exception + HTTPResponse" where
  "create_handshake_response req =
     (if \<not> is_valid_handshake_request req then
        Inr (error_response ''HTTP/1.1 400 Bad Request'' req)
      else if \<not> has_header req ''Origin'' then
        Inr (error_response ''HTTP/1.1 403 Forbidden'' req)
      else
        (case get_header_value req ''Sec-WebSocket-Key'' of
           None \<Rightarrow> Inl runtime_error
         | Some sec_key \<Rightarrow>
             Inr (read_in_body []
               (add_header (''Sec-WebSocket-Accept'', base64 (sha1 (sec_key @ WS_MAGIC_STRING)))
                 (add_header (''Upgrade'', ''websocket'')
                   (add_header (''Connection'', ''Upgrade'')
                     (set_first_line ''HTTP/1.1 101 Switching Protocols''
                       (set_request req empty_response))))))))"

text \<open>
  The method token of a request line, in the words of the specification: the characters
  before the first blank. The source never computes it; the validator compares the first
  three characters of the line instead.
\<close>

definition method_token :: "string \<Rightarrow> string" where
  "method_token line = takeWhile (\<lambda>c. c \<noteq> CHR '' '') line"

section \<open>Frames and messages\<close>

datatype OpCode = OpContinuation | OpText | OpBinary | OpClose | OpPing | OpPong

record WSFrame =
  fin :: bool
  opcode :: OpCode
  payload :: string

datatype MessageType = Text | Binary | Close | Ping | Pong

record WSMessage =
  msg_type :: MessageType
  msg_payload :: string

text \<open>
  Modelled from the spec: \<open>WSFrame::to_string\<close>, the unmasked server-to-client wire form
  of a frame: one byte with the FIN bit and the opcode, the payload length in one, three or
  nine bytes, then the payload.
\<close>

fun opcode_number :: "OpCode \<Rightarrow> nat" where
  "opcode_number OpContinuation = 0"
| "opcode_number OpText = 1"
| "opcode_number OpBinary = 2"
| "opcode_number OpClose = 8"
| "opcode_number OpPing = 9"
| "opcode_number OpPong = 10"

definition be_bytes :: "nat \<Rightarrow> nat \<Rightarrow> string" where
  "be_bytes k n = map (\<lambda>i. char_of (n div 256 ^ i)) (rev [0..<k])"

definition to_string :: "WSFrame \<Rightarrow> string" where
  "to_string f =
     char_of ((if fin f then 128 else 0) + opcode_number (opcode f))
     # (if length (payload f) < 126 then [char_of (length (payload f))]
        else if length (payload f) < 65536 then char_of (126 :: nat) # be_bytes 2 (length (payload f))
        else char_of (127 :: nat) # be_bytes 8 (length (payload f)))
     @ payload f"

section \<open>Sockets\<close>

text \<open>
  The server is a template over the socket type; the template parameter is a value here.
\<close>

datatype SocketType = TCPSocket | NBSecureSocket

text \<open>
  Modelled from the spec: the transport, which the source file only calls. A socket has a
  peer address; \<open>wire\<close> is what it has handed to the kernel so far. A non-blocking
  \<open>write(buffer, false)\<close> consumes a prefix of the buffer and returns the cursor behind it:
  how long a prefix each coming call takes is up to the kernel, the list \<open>accepts\<close>
  (nothing once the list is used up). The TLS socket buffers what \<open>ezwrite\<close> is given
  inside the session (\<open>tls_buffer\<close>), \<open>buffer_bytes\<close> is the size of that buffer (zero for
  a plain socket) and \<open>clear_buffer\<close> empties it.
\<close>

record Socket =
  peer_address :: string
  wire :: string
  accepts :: "nat list"
  tls_buffer :: string

definition socket_write :: "Socket \<Rightarrow> string \<Rightarrow> nat \<times> Socket" where
  "socket_write sock buffer =
     (let n = min (length buffer) (case accepts sock of [] \<Rightarrow> 0 | k # _ \<Rightarrow> k)
      in (n, sock\<lparr>wire := wire sock @ take n buffer, accepts := drop 1 (accepts sock)\<rparr>))"

definition ezwrite :: "Socket \<Rightarrow> string \<Rightarrow> Socket" where
  "ezwrite sock buffer = sock\<lparr>tls_buffer := tls_buffer sock @ buffer\<rparr>"

definition socket_buffer_bytes :: "SocketType \<Rightarrow> Socket \<Rightarrow> nat" where
  "socket_buffer_bytes st sock =
     (case st of TCPSocket \<Rightarrow> 0 | NBSecureSocket \<Rightarrow> length (tls_buffer sock))"

definition socket_clear_buffer :: "Socket \<Rightarrow> Socket" where
  "socket_clear_buffer sock = sock\<lparr>tls_buffer := []\<rparr>"

section \<open>Connections\<close>

datatype State = NotConnected | Connecting | Connected | Closing | Closed

text \<open>
  A parser is the queue of what it has completed and not yet handed out. What
  \<open>parse(data)\<close> makes of the bytes is decided by parser code outside the source file, so a
  read comes with the parser's verdict: it raises (\<open>Throws\<close>) or it appends the items it
  completed, in order (\<open>Completes\<close>). \<open>frames_queued\<close> is a history variable, not a field of
  the source: every frame that \<open>queue_frame\<close> has serialised into \<open>send_buffer\<close>, in order.
\<close>

datatype 'a parsed = Throws | Completes "'a list"

record Connection =
  socket :: Socket
  state :: State
  ws_handshake_parser :: "HTTPRequest list"
  ws_message_parser :: "WSMessage list"
  send_buffer :: "string list"
  frames_queued :: "WSFrame list"

definition new_Connection :: "Socket \<Rightarrow> Connection" where
  "new_Connection sock =
     \<lparr>socket = sock, state = NotConnected, ws_handshake_parser = [], ws_message_parser = [],
      send_buffer = [], frames_queued = []\<rparr>"

text \<open>
  \<open>Connection::write\<close> for the plain socket, on the send buffer and the socket: the loop
  over the head buffer, leaving at the first buffer that is not written to its end.
\<close>

fun write_TCPSocket :: "string list \<Rightarrow> Socket \<Rightarrow> string list \<times> Socket" where
  "write_TCPSocket [] sock = ([], sock)"
| "write_TCPSocket (buffer # rest) sock =
     (if fst (socket_write sock buffer) \<noteq> length buffer
      then (drop (fst (socket_write sock buffer)) buffer # rest, snd (socket_write sock buffer))
      else write_TCPSocket rest (snd (socket_write sock buffer)))"

fun write_NBSecureSocket :: "string list \<Rightarrow> Socket \<Rightarrow> string list \<times> Socket" where
  "write_NBSecureSocket [] sock = ([], sock)"
| "write_NBSecureSocket (buffer # rest) sock = write_NBSecureSocket rest (ezwrite sock buffer)"

definition Connection_write :: "SocketType \<Rightarrow> Connection \<Rightarrow> Connection" where
  "Connection_write st conn =
     (case (case st of
              TCPSocket \<Rightarrow> write_TCPSocket (send_buffer conn) (socket conn)
            | NBSecureSocket \<Rightarrow> write_NBSecureSocket (send_buffer conn) (socket conn)) of
        (sb, sock) \<Rightarrow> conn\<lparr>send_buffer := sb, socket := sock\<rparr>)"

text \<open>
  Modelled from the spec: \<open>data_to_send\<close>, declared outside the source file: true iff the
  send buffer is non-empty or the transport has internally buffered bytes.
\<close>

definition data_to_send :: "SocketType \<Rightarrow> Connection \<Rightarrow> bool" where
  "data_to_send st conn = (send_buffer conn \<noteq> [] \<or> 0 < socket_buffer_bytes st (socket conn))"

text \<open>\<open>Connection::buffer_bytes\<close> adds the sizes up in an \<open>unsigned int\<close>.\<close>

definition Connection_buffer_bytes :: "Connection \<Rightarrow> nat" where
  "Connection_buffer_bytes conn =
     foldl (\<lambda>total_bytes buffer. (total_bytes + length buffer) mod 2 ^ 32) 0 (send_buffer conn)"

text \<open>The activation predicates of the two actions of a connection.\<close>

definition read_predicate :: "Connection \<Rightarrow> bool" where
  "read_predicate conn = (state conn \<noteq> Connecting \<and> state conn \<noteq> Closed)"

definition write_predicate :: "SocketType \<Rightarrow> Connection \<Rightarrow> bool" where
  "write_predicate st conn =
     (state conn = Connecting \<or>
      ((state conn = Connected \<or> state conn = Closing \<or> state conn = Closed) \<and>
       data_to_send st conn))"

section \<open>The server\<close>

text \<open>
  The connection table is a \<open>std::map\<close> from identifier to connection, here a list of
  pairs with distinct keys: \<open>emplace\<close> leaves an existing key alone, \<open>at\<close> raises on a
  missing key, \<open>erase\<close> removes the key, \<open>size\<close> is the length. A reference into the table
  (\<open>conn\<close> in the source) is the identifier; writing through it is \<open>modify\<close>.
  The three callbacks are application code: the server records each invocation in
  \<open>upcalls\<close>, a history variable.
\<close>

datatype upcall = open_callback nat | message_callback nat WSMessage | close_callback nat

datatype ResultType = Continue | CancelAll

record WSServer =
  socket_type :: SocketType
  listener_addr :: string
  listener_open :: bool
  active :: bool
  last_connection_id :: nat
  connections :: "(nat \<times> Connection) list"
  closed_connections :: "nat set"
  upcalls :: "upcall list"

definition MAX_CONNECTION_NUM :: nat where
  "MAX_CONNECTION_NUM = 60"

definition emplace :: "nat \<Rightarrow> Connection \<Rightarrow> (nat \<times> Connection) list \<Rightarrow> (nat \<times> Connection) list" where
  "emplace k c m = (if map_of m k = None then m @ [(k, c)] else m)"

definition at :: "(nat \<times> Connection) list \<Rightarrow> nat \<Rightarrow> exception + Connection" where
  "at m k = (case map_of m k of None \<Rightarrow> Inl out_of_range | Some c \<Rightarrow> Inr c)"

definition modify ::
  "nat \<Rightarrow> (Connection \<Rightarrow> Connection) \<Rightarrow> (nat \<times> Connection) list \<Rightarrow> (nat \<times> Connection) list" where
  "modify k f m = map (\<lambda>(k', c). if k' = k then (k', f c) else (k', c)) m"

definition update_conn :: "nat \<Rightarrow> (Connection \<Rightarrow> Connection) \<Rightarrow> WSServer \<Rightarrow> WSServer" where
  "update_conn k f s = s\<lparr>connections := modify k f (connections s)\<rparr>"

definition init_listener_socket :: "WSServer \<Rightarrow> WSServer" where
  "init_listener_socket s = s\<lparr>listener_open := True, active := True\<rparr>"

definition new_WSServer :: "SocketType \<Rightarrow> string \<Rightarrow> WSServer" where
  "new_WSServer st addr =
     init_listener_socket
       \<lparr>socket_type = st, listener_addr = addr, listener_open = False, active = False,
        last_connection_id = 0, connections = [], closed_connections = {}, upcalls = []\<rparr>"

definition queue_frame :: "WSServer \<Rightarrow> nat \<Rightarrow> WSFrame \<Rightarrow> exception + (bool \<times> WSServer)" where
  "queue_frame s connection_id frame =
     (case at (connections s) connection_id of
        Inl e \<Rightarrow> Inl e
      | Inr conn \<Rightarrow>
          if state conn \<noteq> Connected then Inr (False, s)
          else Inr (True,
                 update_conn connection_id
                   (\<lambda>c. c\<lparr>send_buffer := send_buffer c @ [to_string frame],
                          frames_queued := frames_queued c @ [frame]\<rparr>) s))"

definition clear_buffer :: "WSServer \<Rightarrow> nat \<Rightarrow> exception + WSServer" where
  "clear_buffer s connection_id =
     (case at (connections s) connection_id of
        Inl e \<Rightarrow> Inl e
      | Inr conn \<Rightarrow>
          (case socket_type s of
             TCPSocket \<Rightarrow> Inr (update_conn connection_id (\<lambda>c. c\<lparr>send_buffer := []\<rparr>) s)
           | NBSecureSocket \<Rightarrow>
               Inr (update_conn connection_id
                      (\<lambda>c. c\<lparr>send_buffer := [], socket := socket_clear_buffer (socket c)\<rparr>) s)))"

definition close_connection :: "WSServer \<Rightarrow> nat \<Rightarrow> exception + WSServer" where
  "close_connection s connection_id =
     (case at (connections s) connection_id of
        Inl e \<Rightarrow> Inl e
      | Inr conn \<Rightarrow>
          if state conn \<noteq> Connected then Inr s
          else (case queue_frame s connection_id \<lparr>fin = True, opcode = OpClose, payload = []\<rparr> of
                  Inl e \<Rightarrow> Inl e
                | Inr (queued, s') \<Rightarrow>
                    Inr (update_conn connection_id (\<lambda>c. c\<lparr>state := Closing\<rparr>) s')))"

definition drop_connection :: "WSServer \<Rightarrow> nat \<Rightarrow> WSServer" where
  "drop_connection s connection_id =
     (case map_of (connections s) connection_id of
        None \<Rightarrow> s
      | Some conn \<Rightarrow>
          (update_conn connection_id (\<lambda>c. c\<lparr>state := Closed\<rparr>) s)
            \<lparr>closed_connections := insert connection_id (closed_connections s),
             upcalls := upcalls s @ [close_callback connection_id]\<rparr>)"

definition peer_addr :: "WSServer \<Rightarrow> nat \<Rightarrow> exception + string" where
  "peer_addr s connection_id =
     (case at (connections s) connection_id of
        Inl e \<Rightarrow> Inl e
      | Inr conn \<Rightarrow> Inr (peer_address (socket conn)))"

definition buffer_bytes :: "WSServer \<Rightarrow> nat \<Rightarrow> exception + nat" where
  "buffer_bytes s conn_id =
     (case at (connections s) conn_id of
        Inl e \<Rightarrow> Inl e
      | Inr conn \<Rightarrow>
          (case socket_type s of
             TCPSocket \<Rightarrow> Inr (Connection_buffer_bytes conn)
           | NBSecureSocket \<Rightarrow>
               Inr ((Connection_buffer_bytes conn
                     + socket_buffer_bytes NBSecureSocket (socket conn)) mod 2 ^ 32)))"

section \<open>The actions of a connection\<close>

text \<open>
  The read action of connection \<open>conn_id\<close>, fired with the bytes \<open>data\<close> that
  \<open>conn.read()\<close> returned, with \<open>requests\<close>, what the handshake parser completes from
  them, and \<open>messages\<close>, the verdict of the message parser on them (only the parser of the
  current state is fed). The closure holds a reference to the table entry; an identifier
  without an entry is the exception of \<open>at\<close> here. When the message parser raises, its
  queue is left as it was.
\<close>

definition handle_handshake :: "WSServer \<Rightarrow> nat \<Rightarrow> HTTPRequest list \<Rightarrow> exception + (ResultType \<times> WSServer)" where
  "handle_handshake s conn_id parser =
     (case parser of
        [] \<Rightarrow> Inr (Continue, update_conn conn_id (\<lambda>c. c\<lparr>ws_handshake_parser := []\<rparr>) s)
      | req # rest \<Rightarrow>
          (case create_handshake_response req of
             Inl e \<Rightarrow> Inl e
           | Inr response \<Rightarrow>
               if status_code response \<noteq> ''101'' then
                 Inr (CancelAll,
                   drop_connection
                     (update_conn conn_id
                        (\<lambda>c. c\<lparr>ws_handshake_parser := rest,
                               send_buffer := send_buffer c @ [str response]\<rparr>) s)
                     conn_id)
               else
                 Inr (Continue,
                   update_conn conn_id
                     (\<lambda>c. c\<lparr>ws_handshake_parser := rest,
                            send_buffer := send_buffer c @ [str response],
                            state := Connecting\<rparr>) s)))"

definition handle_message :: "WSServer \<Rightarrow> nat \<Rightarrow> WSMessage list \<Rightarrow> exception + (ResultType \<times> WSServer)" where
  "handle_message s conn_id parser =
     (case parser of
        [] \<Rightarrow> Inr (Continue, update_conn conn_id (\<lambda>c. c\<lparr>ws_message_parser := []\<rparr>) s)
      | message # rest \<Rightarrow>
          (case msg_type message of
             Text \<Rightarrow>
               Inr (Continue,
                 (update_conn conn_id (\<lambda>c. c\<lparr>ws_message_parser := rest\<rparr>) s)
                   \<lparr>upcalls := upcalls s @ [message_callback conn_id message]\<rparr>)
           | Binary \<Rightarrow>
               Inr (Continue,
                 (update_conn conn_id (\<lambda>c. c\<lparr>ws_message_parser := rest\<rparr>) s)
                   \<lparr>upcalls := upcalls s @ [message_callback conn_id message]\<rparr>)
           | Close \<Rightarrow>
               (case queue_frame (update_conn conn_id (\<lambda>c. c\<lparr>ws_message_parser := rest\<rparr>) s)
                       conn_id \<lparr>fin = True, opcode = OpClose, payload = msg_payload message\<rparr> of
                  Inl e \<Rightarrow> Inl e
                | Inr (queued, s') \<Rightarrow>
                    Inr (Continue, update_conn conn_id (\<lambda>c. c\<lparr>state := Closed\<rparr>) s'))
           | Ping \<Rightarrow>
               (case queue_frame (update_conn conn_id (\<lambda>c. c\<lparr>ws_message_parser := rest\<rparr>) s)
                       conn_id \<lparr>fin = True, opcode = OpPong, payload = []\<rparr> of
                  Inl e \<Rightarrow> Inl e
                | Inr (queued, s') \<Rightarrow> Inr (Continue, s'))
           | Pong \<Rightarrow>
               Inr (Continue, update_conn conn_id (\<lambda>c. c\<lparr>ws_message_parser := rest\<rparr>) s)))"

definition handle_closing :: "WSServer \<Rightarrow> nat \<Rightarrow> WSMessage list \<Rightarrow> exception + (ResultType \<times> WSServer)" where
  "handle_closing s conn_id parser =
     (case parser of
        [] \<Rightarrow> Inr (Continue, update_conn conn_id (\<lambda>c. c\<lparr>ws_message_parser := []\<rparr>) s)
      | message # rest \<Rightarrow>
          (case msg_type message of
             Close \<Rightarrow>
               Inr (CancelAll,
                 drop_connection
                   (update_conn conn_id
                      (\<lambda>c. c\<lparr>ws_message_parser := rest, state := Closed, send_buffer := []\<rparr>) s)
                   conn_id)
           | _ \<Rightarrow>
               Inr (Continue, update_conn conn_id (\<lambda>c. c\<lparr>ws_message_parser := rest\<rparr>) s)))"

definition read_action ::
  "WSServer \<Rightarrow> nat \<Rightarrow> string \<Rightarrow> HTTPRequest list \<Rightarrow> WSMessage parsed
     \<Rightarrow> exception + (ResultType \<times> WSServer)" where
  "read_action s conn_id data requests messages =
     (case at (connections s) conn_id of
        Inl e \<Rightarrow> Inl e
      | Inr conn \<Rightarrow>
          if data = [] then Inr (CancelAll, drop_connection s conn_id)
          else (case state conn of
             NotConnected \<Rightarrow> handle_handshake s conn_id (ws_handshake_parser conn @ requests)
           | Connected \<Rightarrow>
               (case messages of
                  Throws \<Rightarrow>
                    (case close_connection s conn_id of
                       Inl e \<Rightarrow> Inl e
                     | Inr s' \<Rightarrow> Inr (Continue, s'))
                | Completes ms \<Rightarrow> handle_message s conn_id (ws_message_parser conn @ ms))
           | Closing \<Rightarrow>
               (case messages of
                  Throws \<Rightarrow> Inr (Continue, s)
                | Completes ms \<Rightarrow> handle_closing s conn_id (ws_message_parser conn @ ms))
           | _ \<Rightarrow> Inl assertion_failure))"

text \<open>The write action of connection \<open>conn_id\<close>.\<close>

definition write_action :: "WSServer \<Rightarrow> nat \<Rightarrow> exception + (ResultType \<times> WSServer)" where
  "write_action s conn_id =
     (case at (connections s) conn_id of
        Inl e \<Rightarrow> Inl e
      | Inr conn \<Rightarrow>
          (let st = socket_type s;
               s1 =
                 (if state conn = Connecting then
                    (let written = (if data_to_send st conn then Connection_write st conn else conn)
                     in if \<not> data_to_send st written then
                          (update_conn conn_id (\<lambda>c. written\<lparr>state := Connected\<rparr>) s)
                            \<lparr>upcalls := upcalls s @ [open_callback conn_id]\<rparr>
                        else update_conn conn_id (\<lambda>c. written) s)
                  else if (state conn = Connected \<or> state conn = Closing \<or> state conn = Closed)
                          \<and> data_to_send st conn then
                    update_conn conn_id (\<lambda>c. Connection_write st conn) s
                  else s)
           in (case at (connections s1) conn_id of
                 Inl e \<Rightarrow> Inl e
               | Inr conn1 \<Rightarrow>
                   if state conn1 = Closed \<and> \<not> data_to_send st conn1
                   then Inr (CancelAll, drop_connection s1 conn_id)
                   else Inr (Continue, s1))))"

section \<open>Accepting, polling and the loop\<close>

text \<open>
  The listener's action, fired with the accepted client socket. Connection identifiers
  are \<open>uint64_t\<close>.
\<close>

definition accept :: "WSServer \<Rightarrow> Socket \<Rightarrow> ResultType \<times> WSServer" where
  "accept s client =
     (let conn_id = last_connection_id s;
          s1 = s\<lparr>last_connection_id := (conn_id + 1) mod 2 ^ 64,
                 connections := emplace conn_id (new_Connection client) (connections s)\<rparr>
      in if length (connections s1) \<ge> MAX_CONNECTION_NUM
         then (CancelAll, s1\<lparr>listener_open := False, active := False\<rparr>)
         else (Continue, s1))"

text \<open>
  Modelled from the spec: the poller, which the source file only calls. One call of
  \<open>poll\<close> evaluates the predicates of the registered actions, waits, and invokes the
  callbacks of the ready ones in some order: here a list of events chosen by the
  environment. The listener's action is registered while the server is active (it is
  cancelled when the cap is reached). An event of a connection is dispatched when the
  connection was in the table and its predicate held when the poll began.
\<close>

datatype event =
    Accept Socket
  | ReadReady nat string "HTTPRequest list" "WSMessage parsed"
  | WriteReady nat

definition dispatch :: "WSServer \<Rightarrow> WSServer \<Rightarrow> event \<Rightarrow> exception + WSServer" where
  "dispatch s0 s ev =
     (case ev of
        Accept client \<Rightarrow> if active s then Inr (snd (accept s client)) else Inr s
      | ReadReady conn_id data requests messages \<Rightarrow>
          (case map_of (connections s0) conn_id of
             None \<Rightarrow> Inr s
           | Some conn0 \<Rightarrow>
               if read_predicate conn0 then
                 (case read_action s conn_id data requests messages of
                    Inl e \<Rightarrow> Inl e
                  | Inr (r, s') \<Rightarrow> Inr s')
               else Inr s)
      | WriteReady conn_id \<Rightarrow>
          (case map_of (connections s0) conn_id of
             None \<Rightarrow> Inr s
           | Some conn0 \<Rightarrow>
               if write_predicate (socket_type s0) conn0 then
                 (case write_action s conn_id of
                    Inl e \<Rightarrow> Inl e
                  | Inr (r, s') \<Rightarrow> Inr s')
               else Inr s))"

fun dispatch_all :: "WSServer \<Rightarrow> WSServer \<Rightarrow> event list \<Rightarrow> exception + WSServer" where
  "dispatch_all s0 s [] = Inr s"
| "dispatch_all s0 s (ev # evs) =
     (case dispatch s0 s ev of
        Inl e \<Rightarrow> Inl e
      | Inr s' \<Rightarrow> dispatch_all s0 s' evs)"

definition poll :: "WSServer \<Rightarrow> event list \<Rightarrow> exception + WSServer" where
  "poll s evs = dispatch_all s s evs"

text \<open>
  \<open>loop_once\<close>: one poll, the garbage collection of the closed connections, and the
  listener set up again when it is inactive and the table is below the cap.
\<close>

definition garbage_collect :: "WSServer \<Rightarrow> WSServer" where
  "garbage_collect s =
     s\<lparr>connections := filter (\<lambda>(k, c). k \<notin> closed_connections s) (connections s),
       closed_connections := {}\<rparr>"

definition loop_once :: "WSServer \<Rightarrow> event list \<Rightarrow> exception + WSServer" where
  "loop_once s evs =
     (case poll s evs of
        Inl e \<Rightarrow> Inl e
      | Inr s1 \<Rightarrow>
          (let s2 = garbage_collect s1
           in if \<not> active s2 \<and> length (connections s2) < MAX_CONNECTION_NUM
              then Inr (init_listener_socket s2)
              else Inr s2))"

text \<open>\<open>loop\<close>, for as many iterations as the environment has polls.\<close>

fun loop :: "WSServer \<Rightarrow> event list list \<Rightarrow> exception + WSServer" where
  "loop s [] = Inr s"
| "loop s (evs # rest) =
     (case loop_once s evs of
        Inl e \<Rightarrow> Inl e
      | Inr s' \<Rightarrow> loop s' rest)"

section \<open>The life of one connection\<close>

text \<open>
  What can happen to a connection between its insertion and its erasure: the application
  calls \<open>queue_frame\<close>, \<open>close_connection\<close> or \<open>clear_buffer\<close> on its identifier
  (from a callback or between two iterations), or one of its two actions fires.
  \<open>lifetime\<close> runs such a sequence; an exception ends it.
\<close>

datatype conn_op =
    QueueFrame WSFrame
  | CloseConnection
  | ClearBuffer
  | ReadFire string "HTTPRequest list" "WSMessage parsed"
  | WriteFire

definition apply_op :: "WSServer \<Rightarrow> nat \<Rightarrow> conn_op \<Rightarrow> exception + WSServer" where
  "apply_op s conn_id op =
     (case op of
        QueueFrame frame \<Rightarrow> map_sum id snd (queue_frame s conn_id frame)
      | CloseConnection \<Rightarrow> close_connection s conn_id
      | ClearBuffer \<Rightarrow> clear_buffer s conn_id
      | ReadFire data requests messages \<Rightarrow>
          map_sum id snd (read_action s conn_id data requests messages)
      | WriteFire \<Rightarrow> map_sum id snd (write_action s conn_id))"

fun lifetime :: "WSServer \<Rightarrow> nat \<Rightarrow> conn_op list \<Rightarrow> exception + WSServer" where
  "lifetime s conn_id [] = Inr s"
| "lifetime s conn_id (op # ops) =
     (case apply_op s conn_id op of
        Inl e \<Rightarrow> Inl e
      | Inr s' \<Rightarrow> lifetime s' conn_id ops)"

text \<open>
  The number of Close frames among the frames queued so far, on a frame list, on the entry
  of a connection, and after a sequence of operations.
\<close>

definition close_frames :: "WSFrame list \<Rightarrow> nat" where
  "close_frames fs = length (filter (\<lambda>f. opcode f = OpClose) fs)"

definition close_frames_of :: "WSServer \<Rightarrow> nat \<Rightarrow> nat option" where
  "close_frames_of s conn_id =
     map_option (\<lambda>c. close_frames (frames_queued c)) (map_of (connections s) conn_id)"

definition close_frames_after :: "WSServer \<Rightarrow> nat \<Rightarrow> conn_op list \<Rightarrow> nat option" where
  "close_frames_after s conn_id ops =
     (case lifetime s conn_id ops of Inl e \<Rightarrow> None | Inr s' \<Rightarrow> close_frames_of s' conn_id)"

text \<open>
  \<open>app_closes\<close>: how many of the operations are calls of \<open>queue_frame\<close> by the
  application with a Close frame.
\<close>

definition app_closes :: "conn_op list \<Rightarrow> nat" where
  "app_closes ops =
     length (filter (\<lambda>op. case op of QueueFrame f \<Rightarrow> opcode f = OpClose | _ \<Rightarrow> False) ops)"

text \<open>
  \<open>close_bound n\<close>: at most \<open>n\<close> Close frames have been queued, or at most \<open>n + 1\<close> and
  the connection is Closing or Closed. \<open>keeps_close_bound d\<close>: a step keeps the entry and
  takes \<open>close_bound n\<close> to \<open>close_bound (n + d)\<close>.
\<close>

definition close_bound :: "nat \<Rightarrow> Connection \<Rightarrow> bool" where
  "close_bound n c =
     (close_frames (frames_queued c) \<le> n \<or>
      (close_frames (frames_queued c) \<le> n + 1 \<and> (state c = Closing \<or> state c = Closed)))"

definition keeps_close_bound :: "nat \<Rightarrow> WSServer \<Rightarrow> WSServer \<Rightarrow> nat \<Rightarrow> bool" where
  "keeps_close_bound d s s' k =
     (case map_of (connections s) k of
        None \<Rightarrow> True
      | Some c \<Rightarrow>
          (case map_of (connections s') k of
             None \<Rightarrow> False
           | Some c' \<Rightarrow> \<forall>n. close_bound n c \<longrightarrow> close_bound (n + d) c'))"

section \<open>Predicates used in the proofs\<close>

text \<open>
  \<open>same_population\<close>: two server states with tables of the same size and the same active
  flag. \<open>below_cap_if_active\<close>: an active listener comes with a table below the cap.
\<close>

definition same_population :: "WSServer \<Rightarrow> WSServer \<Rightarrow> bool" where
  "same_population s s' =
     (length (connections s') = length (connections s) \<and> active s' = active s)"

definition below_cap_if_active :: "WSServer \<Rightarrow> bool" where
  "below_cap_if_active s = (\<not> (active s \<and> MAX_CONNECTION_NUM \<le> length (connections s)))"

section \<open>Concrete requests, connections and servers\<close>

text \<open>The inputs at which the theorems below are evaluated.\<close>

definition getx_request :: HTTPRequest where
  "getx_request =
     \<lparr>first_line = ''GETX /ws HTTP/1.1'',
      headers = [(''Host'', ''example.org''), (''Connection'', ''Upgrade''),
                 (''Upgrade'', ''websocket''), (''Sec-WebSocket-Key'', ''dGhlIHNhbXBsZSBub25jZQ==''),
                 (''Origin'', ''http://example.org'')],
      body = []\<rparr>"

definition no_origin_request :: HTTPRequest where
  "no_origin_request =
     \<lparr>first_line = ''GET /ws HTTP/1.1'',
      headers = [(''Host'', ''example.org''), (''Connection'', ''keep-alive, Upgrade''),
                 (''Upgrade'', ''websocket''), (''Sec-WebSocket-Key'', ''dGhlIHNhbXBsZSBub25jZQ=='')],
      body = []\<rparr>"

definition sample_socket :: Socket where
  "sample_socket =
     \<lparr>peer_address = ''192.0.2.1:50000'', wire = [], accepts = [5, 2], tls_buffer = []\<rparr>"

definition sample_connection :: Connection where
  "sample_connection =
     \<lparr>socket = sample_socket, state = Connected, ws_handshake_parser = [],
      ws_message_parser = [], send_buffer = [''hello'', ''world''], frames_queued = []\<rparr>"

definition sample_server :: WSServer where
  "sample_server =
     \<lparr>socket_type = TCPSocket, listener_addr = ''0.0.0.0:9361'', listener_open = True,
      active = True, last_connection_id = 1, connections = [(0, sample_connection)],
      closed_connections = {}, upcalls = [open_callback 0]\<rparr>"

definition sample_request :: HTTPRequest where
  "sample_request =
     \<lparr>first_line = ''GET /chat HTTP/1.1'',
      headers = [(''Host'', ''server.example.com''), (''Upgrade'', ''websocket''),
                 (''Connection'', ''Upgrade''), (''Sec-WebSocket-Key'', ''dGhlIHNhbXBsZSBub25jZQ==''),
                 (''Origin'', ''http://example.com''), (''Sec-WebSocket-Version'', ''13'')],
      body = []\<rparr>"

definition crowded_server :: WSServer where
  "crowded_server =
     \<lparr>socket_type = TCPSocket, listener_addr = ''0.0.0.0:9361'', listener_open = False,
      active = False, last_connection_id = 60,
      connections = map (\<lambda>k. (k, new_Connection sample_socket)) [0..<60],
      closed_connections = {}, upcalls = []\<rparr>"


definition text_a :: WSMessage where
  "text_a = \<lparr>msg_type = Text, msg_payload = ''a''\<rparr>"

definition text_b :: WSMessage where
  "text_b = \<lparr>msg_type = Text, msg_payload = ''b''\<rparr>"

definition sample_server_after_text_a :: WSServer where
  "sample_server_after_text_a =
     sample_server
       \<lparr>connections := [(0, sample_connection\<lparr>ws_message_parser := [text_b]\<rparr>)],
        upcalls := [open_callback 0, message_callback 0 text_a]\<rparr>"


definition draining_server :: WSServer where
  "draining_server =
     sample_server
       \<lparr>connections := [(0, sample_connection\<lparr>socket := sample_socket\<lparr>accepts := [5, 5]\<rparr>\<rparr>)]\<rparr>"

definition open_socket :: Socket where
  "open_socket =
     \<lparr>peer_address = ''192.0.2.1:50000'', wire = [], accepts = [1000], tls_buffer = []\<rparr>"

definition accepted_server :: WSServer where
  "accepted_server = snd (accept (new_WSServer TCPSocket ''0.0.0.0:9361'') open_socket)"

definition sample_response :: HTTPResponse where
  "sample_response =
     \<lparr>first_line = ''HTTP/1.1 101 Switching Protocols'',
      headers = [(''Connection'', ''Upgrade''), (''Upgrade'', ''websocket''),
                 (''Sec-WebSocket-Accept'', ''s3pPLMBiTxaQ9kYGzzhZRbK+xOo='')],
      body = [], request = Some sample_request\<rparr>"

definition connected_connection :: Connection where
  "connected_connection =
     \<lparr>socket = open_socket\<lparr>wire := str sample_response, accepts := []\<rparr>, state = Connected,
      ws_handshake_parser = [], ws_message_parser = [], send_buffer = [], frames_queued = []\<rparr>"

definition connected_server :: WSServer where
  "connected_server =
     accepted_server\<lparr>connections := [(0, connected_connection)], upcalls := [open_callback 0]\<rparr>"

definition handshake_ops :: "conn_op list" where
  "handshake_ops = [ReadFire ''GET /chat HTTP/1.1'' [sample_request] (Completes []), WriteFire]"

definition close_frame :: WSFrame where
  "close_frame = \<lparr>fin = True, opcode = OpClose, payload = []\<rparr>"

definition text_frame :: WSFrame where
  "text_frame = \<lparr>fin = True, opcode = OpText, payload = ''hello''\<rparr>"

definition client_close :: WSMessage where
  "client_close = \<lparr>msg_type = Close, msg_payload = ''bye''\<rparr>"

definition closing_ops :: "conn_op list" where
  "closing_ops =
     [QueueFrame text_frame, ReadFire ''x'' [] (Completes [client_close]), CloseConnection,
      WriteFire]"

definition echoed_close_server :: WSServer where
  "echoed_close_server =
     connected_server
       \<lparr>connections :=
          [(0, connected_connection
                 \<lparr>state := Closed,
                  send_buffer :=
                    [to_string text_frame,
                     to_string \<lparr>fin = True, opcode = OpClose, payload = ''bye''\<rparr>],
                  frames_queued :=
                    [text_frame, \<lparr>fin = True, opcode = OpClose, payload = ''bye''\<rparr>]\<rparr>)]\<rparr>"

definition two_closes_server :: WSServer where
  "two_closes_server =
     connected_server
       \<lparr>connections :=
          [(0, connected_connection
                 \<lparr>send_buffer := [to_string close_frame, to_string close_frame],
                  frames_queued := [close_frame, close_frame]\<rparr>)]\<rparr>"

definition app_close_then_echo_ops :: "conn_op list" where
  "app_close_then_echo_ops =
     [QueueFrame close_frame, ReadFire ''x'' [] (Completes [client_close])]"

definition app_close_then_echo_server :: WSServer where
  "app_close_then_echo_server =
     connected_server
       \<lparr>connections :=
          [(0, connected_connection
                 \<lparr>state := Closed,
                  send_buffer :=
                    [to_string close_frame,
                     to_string \<lparr>fin = True, opcode = OpClose, payload = ''bye''\<rparr>],
                  frames_queued :=
                    [close_frame, \<lparr>fin = True, opcode = OpClose, payload = ''bye''\<rparr>]\<rparr>)]\<rparr>"

section \<open>The blocks, schedules and states of the sample key\<close>

text \<open>
  The key \<open>dGhlIHNhbXBsZSBub25jZQ==\<close> followed by the GUID is 60 bytes, two blocks after
  padding. The constants below name the two blocks, the 64 words each schedule adds, the
  schedules in four parts of twenty words, and the working state after every twenty rounds.
\<close>

definition sample_key :: string where
  "sample_key = ''dGhlIHNhbXBsZSBub25jZQ==''"

definition blk1 :: "word32 list" where
  "blk1 =
     [0x6447686C, 0x49484E68, 0x62584273, 0x5A534275, 0x6232356A, 0x5A513D3D, 0x32353845,
     0x41464135, 0x2D453931, 0x342D3437, 0x44412D39, 0x3543412D, 0x43354142, 0x30444338,
     0x35423131, 0x80000000]"

definition blk1_expanded :: "word32 list" where
  "blk1_expanded =
     [0x363CA02C, 0x24E81236, 0x8856B441, 0x06FB3C92, 0x6FB4BCB6, 0x460B16E3, 0x599219AE,
     0x35BF9369, 0x3267458E, 0xF828FD04, 0x753A96A7, 0x6336F612, 0xC3D66383, 0x06EB86F9,
     0x73B4FD42, 0xA503C5B8, 0x15CDAE35, 0x531E5DC5, 0x6FB6B7D0, 0x6C16E4AC, 0x4DDD36BD,
     0x35D36946, 0xE8AE8B9C, 0x4A933AD0, 0xCE8628B4, 0x415DBA9E, 0x2792F049, 0x8E9B79E7,
     0x79C425C5, 0x6353B49D, 0x00994218, 0x8A950ED1, 0xAF5D0B99, 0xFD9883DE, 0x1ED8FFEB,
     0xF007FF28, 0x425E3674, 0x059631C0, 0xAD6C3C31, 0x860B71D7, 0x87BFC548, 0x3E64F92D,
     0x8D0AB761, 0x34E1EE35, 0x0ACF5108, 0xC2B479DA, 0x6C93370A, 0xF7935BA1, 0xE91C91C1,
     0xBED165A2, 0x4C3E4ABE, 0x50D96238, 0xB6587DDE, 0x1A2EE6E6, 0x2D335896, 0xF3495D0B,
     0xF30E0A1D, 0x32CE5459, 0x7165E3B8, 0xAB05FF94, 0xC5949F0B, 0xBCD84E4A, 0x07720392,
     0xFF3FF806]"

definition blk1_w0 :: "word32 list" where
  "blk1_w0 =
     [0x6447686C, 0x49484E68, 0x62584273, 0x5A534275, 0x6232356A, 0x5A513D3D, 0x32353845,
     0x41464135, 0x2D453931, 0x342D3437, 0x44412D39, 0x3543412D, 0x43354142, 0x30444338,
     0x35423131, 0x80000000, 0x363CA02C, 0x24E81236, 0x8856B441, 0x06FB3C92]"

definition blk1_w20 :: "word32 list" where
  "blk1_w20 =
     [0x6FB4BCB6, 0x460B16E3, 0x599219AE, 0x35BF9369, 0x3267458E, 0xF828FD04, 0x753A96A7,
     0x6336F612, 0xC3D66383, 0x06EB86F9, 0x73B4FD42, 0xA503C5B8, 0x15CDAE35, 0x531E5DC5,
     0x6FB6B7D0, 0x6C16E4AC, 0x4DDD36BD, 0x35D36946, 0xE8AE8B9C, 0x4A933AD0]"

definition blk1_w40 :: "word32 list" where
  "blk1_w40 =
     [0xCE8628B4, 0x415DBA9E, 0x2792F049, 0x8E9B79E7, 0x79C425C5, 0x6353B49D, 0x00994218,
     0x8A950ED1, 0xAF5D0B99, 0xFD9883DE, 0x1ED8FFEB, 0xF007FF28, 0x425E3674, 0x059631C0,
     0xAD6C3C31, 0x860B71D7, 0x87BFC548, 0x3E64F92D, 0x8D0AB761, 0x34E1EE35]"

definition blk1_w60 :: "word32 list" where
  "blk1_w60 =
     [0x0ACF5108, 0xC2B479DA, 0x6C93370A, 0xF7935BA1, 0xE91C91C1, 0xBED165A2, 0x4C3E4ABE,
     0x50D96238, 0xB6587DDE, 0x1A2EE6E6, 0x2D335896, 0xF3495D0B, 0xF30E0A1D, 0x32CE5459,
     0x7165E3B8, 0xAB05FF94, 0xC5949F0B, 0xBCD84E4A, 0x07720392, 0xFF3FF806]"

definition blk2 :: "word32 list" where
  "blk2 =
     [0x00000000, 0x00000000, 0x00000000, 0x00000000, 0x00000000, 0x00000000, 0x00000000,
     0x00000000, 0x00000000, 0x00000000, 0x00000000, 0x00000000, 0x00000000, 0x00000000,
     0x00000000, 0x000001E0]"

definition blk2_expanded :: "word32 list" where
  "blk2_expanded =
     [0x00000000, 0x00000000, 0x000003C0, 0x00000000, 0x00000000, 0x00000780, 0x00000000,
     0x000003C0, 0x00000F00, 0x00000000, 0x00000000, 0x00001E00, 0x00000000, 0x00000CC0,
     0x00003C00, 0x00000440, 0x00000000, 0x00007800, 0x00000F00, 0x00003300, 0x0000F000,
     0x00000F00, 0x00000000, 0x0001EF00, 0x00000000, 0x0000CC00, 0x0003C000, 0x00004380,
     0x00000000, 0x00078F00, 0x0000FF00, 0x00032680, 0x000F0000, 0x0000F000, 0x00003300,
     0x001EFF00, 0x00000000, 0x000CB800, 0x003C0000, 0x00040B00, 0x0000F000, 0x0078FF00,
     0x000FF000, 0x00338700, 0x00F00000, 0x000FC300, 0x0000F000, 0x01EFBB00, 0x00000000,
     0x00CC0000, 0x03C0F000, 0x00438000, 0x00000000, 0x078F0000, 0x00FF0000, 0x03269E00,
     0x0F000000, 0x00F0F000, 0x00333C00, 0x1EFF8800, 0x00000000, 0x0CB88800, 0x3C00F000,
     0x040A4A00]"

definition blk2_w0 :: "word32 list" where
  "blk2_w0 =
     [0x00000000, 0x00000000, 0x00000000, 0x00000000, 0x00000000, 0x00000000, 0x00000000,
     0x00000000, 0x00000000, 0x00000000, 0x00000000, 0x00000000, 0x00000000, 0x00000000,
     0x00000000, 0x000001E0, 0x00000000, 0x00000000, 0x000003C0, 0x00000000]"

definition blk2_w20 :: "word32 list" where
  "blk2_w20 =
     [0x00000000, 0x00000780, 0x00000000, 0x000003C0, 0x00000F00, 0x00000000, 0x00000000,
     0x00001E00, 0x00000000, 0x00000CC0, 0x00003C00, 0x00000440, 0x00000000, 0x00007800,
     0x00000F00, 0x00003300, 0x0000F000, 0x00000F00, 0x00000000, 0x0001EF00]"

definition blk2_w40 :: "word32 list" where
  "blk2_w40 =
     [0x00000000, 0x0000CC00, 0x0003C000, 0x00004380, 0x00000000, 0x00078F00, 0x0000FF00,
     0x00032680, 0x000F0000, 0x0000F000, 0x00003300, 0x001EFF00, 0x00000000, 0x000CB800,
     0x003C0000, 0x00040B00, 0x0000F000, 0x0078FF00, 0x000FF000, 0x00338700]"

definition blk2_w60 :: "word32 list" where
  "blk2_w60 =
     [0x00F00000, 0x000FC300, 0x0000F000, 0x01EFBB00, 0x00000000, 0x00CC0000, 0x03C0F000,
     0x00438000, 0x00000000, 0x078F0000, 0x00FF0000, 0x03269E00, 0x0F000000, 0x00F0F000,
     0x00333C00, 0x1EFF8800, 0x00000000, 0x0CB88800, 0x3C00F000, 0x040A4A00]"

definition blk1_h0 :: hstate where
  "blk1_h0 = (0x67452301, 0xEFCDAB89, 0x98BADCFE, 0x10325476, 0xC3D2E1F0)"

definition blk1_h20 :: hstate where
  "blk1_h20 = (0x091AB97C, 0x8DC510B6, 0xDFAECA5A, 0x75F6BD5D, 0x2801311A)"

definition blk1_h40 :: hstate where
  "blk1_h40 = (0x2BA2C83E, 0xD0869081, 0x1A1D8209, 0xD3334889, 0x2779E4F2)"

definition blk1_h60 :: hstate where
  "blk1_h60 = (0x4872D85A, 0xD284F163, 0x83091F0B, 0x1BBDBFBD, 0x9F8490BC)"

definition blk1_h80 :: hstate where
  "blk1_h80 = (0xF48A5426, 0x835995E1, 0x25C11EFB, 0x4A45C402, 0x9A73C2F2)"

definition blk2_h0 :: hstate where
  "blk2_h0 = (0x5BCF7727, 0x7327416A, 0xBE7BFBF9, 0x5A781878, 0x5E46A4E2)"

definition blk2_h20 :: hstate where
  "blk2_h20 = (0x2A008B51, 0x2F193A09, 0x9C8663C1, 0x8EB5D103, 0x261B7C9A)"

definition blk2_h40 :: hstate where
  "blk2_h40 = (0x6F698F1A, 0xC6FF0CD3, 0xDE5AB7BC, 0x5F6F3CBB, 0x1DA48A85)"

definition blk2_h60 :: hstate where
  "blk2_h60 = (0x56119F19, 0x085EB2FE, 0x484A25C5, 0xC140CFE8, 0x686DA050)"

definition blk2_h80 :: hstate where
  "blk2_h80 = (0x57AAD805, 0x4D3B0DAC, 0xD27A4A0D, 0x74C040CD, 0x54782008)"

definition sample_state :: hstate where
  "sample_state = (0xB37A4F2C, 0xC0624F16, 0x90F64606, 0xCF385945, 0xB2BEC4EA)"

section \<open>The handshake validator and the response\<close>

lemma valid_has_key:
  "is_valid_handshake_request req \<Longrightarrow> \<exists>k. get_header_value req ''Sec-WebSocket-Key'' = Some k"
  by (auto simp: is_valid_handshake_request_def has_header_def split: if_splits option.splits)

text \<open>A request the validator accepts begins with the three characters \<open>GET\<close>.\<close>

lemma valid_first_three:
  "is_valid_handshake_request req \<Longrightarrow> take 3 (first_line req) = ''GET''"
  by (auto simp: is_valid_handshake_request_def substr_def split: if_splits option.splits)

text \<open>A request the validator rejects is answered with 400.\<close>

lemma invalid_gives_400:
  "\<not> is_valid_handshake_request req \<Longrightarrow>
     create_handshake_response req = Inr (error_response ''HTTP/1.1 400 Bad Request'' req)"
  by (simp add: create_handshake_response_def)

text \<open>The header lookup behind the validator never raises: a response is always returned.\<close>

lemma create_handshake_response_returns:
  "\<exists>resp. create_handshake_response req = Inr resp"
  using valid_has_key [of req]
  by (auto simp: create_handshake_response_def)

lemma error_response_fields:
  "first_line (error_response l req) = l"
  "headers (error_response l req) = [(''Content-Length'', ''0''), (''Connection'', ''close'')]"
  "body (error_response l req) = []"
  by (simp_all add: error_response_def read_in_body_def add_header_def set_first_line_def
        set_request_def empty_response_def)

lemma getx_valid: "is_valid_handshake_request getx_request"
  by (simp add: getx_request_def is_valid_handshake_request_def substr_def substr_from_def
        has_header_def get_header_value_def)

text \<open>
  C1. The claim: the validator accepts only requests whose method token equals \<open>GET\<close>
  and answers every other method with 400 Bad Request. The source compares only the first
  three characters of the request line: the request line \<open>GETX /ws HTTP/1.1\<close>, whose method
  token is \<open>GETX\<close>, passes the validator and is answered with 101 Switching Protocols.
\<close>

theorem method_prefix_accepts_GETX:
  "is_valid_handshake_request getx_request \<and>
   method_token (first_line getx_request) = ''GETX'' \<and>
   map_sum id first_line (create_handshake_response getx_request)
     = Inr ''HTTP/1.1 101 Switching Protocols''"
  by (simp add: getx_valid create_handshake_response_def)
     (simp add: getx_request_def method_token_def has_header_def get_header_value_def
        read_in_body_def add_header_def set_first_line_def set_request_def empty_response_def)

theorem method_prefix_accepts_GETX_witness:
  "take 3 (first_line getx_request) = ''GET'' \<and>
   method_token (first_line getx_request) \<noteq> ''GET'' \<and>
   is_valid_handshake_request getx_request \<and>
   create_handshake_response getx_request
     \<noteq> Inr (error_response ''HTTP/1.1 400 Bad Request'' getx_request)"
  using method_prefix_accepts_GETX
  by (auto simp: getx_request_def error_response_fields)

text \<open>
  C8. A request that passes the validation rules and has no \<open>Origin\<close> header is answered
  with 403 Forbidden, and every error response (400 or 403) has exactly the headers
  \<open>Content-Length: 0\<close> and \<open>Connection: close\<close> and an empty body.
\<close>

theorem missing_origin_forbidden:
  "(is_valid_handshake_request req \<and> \<not> has_header req ''Origin'' \<longrightarrow>
      (\<exists>resp. create_handshake_response req = Inr resp \<and>
              first_line resp = ''HTTP/1.1 403 Forbidden'')) \<and>
   (\<forall>resp. create_handshake_response req = Inr resp \<and>
           (first_line resp = ''HTTP/1.1 400 Bad Request'' \<or>
            first_line resp = ''HTTP/1.1 403 Forbidden'') \<longrightarrow>
           headers resp = [(''Content-Length'', ''0''), (''Connection'', ''close'')] \<and>
           body resp = [])"
  by (auto simp: create_handshake_response_def error_response_fields
        read_in_body_def add_header_def set_first_line_def set_request_def empty_response_def
        split: if_splits option.splits)

lemma no_origin_valid:
  "is_valid_handshake_request no_origin_request \<and> \<not> has_header no_origin_request ''Origin''"
  by (simp add: no_origin_request_def is_valid_handshake_request_def substr_def substr_from_def
        has_header_def get_header_value_def)

theorem missing_origin_forbidden_witness:
  "is_valid_handshake_request no_origin_request \<and> \<not> has_header no_origin_request ''Origin'' \<and>
   (\<exists>resp. create_handshake_response no_origin_request = Inr resp \<and>
      first_line resp = ''HTTP/1.1 403 Forbidden'' \<and>
      headers resp = [(''Content-Length'', ''0''), (''Connection'', ''close'')] \<and>
      body resp = [])"
  using missing_origin_forbidden [of no_origin_request] no_origin_valid
  by auto

section \<open>Activation predicates\<close>

text \<open>
  C4. The read predicate holds exactly when the state is neither Connecting nor Closed;
  the write predicate holds exactly when the state is Connecting, or the state is
  Connected, Closing or Closed and there is data to send (a non-empty send buffer, or bytes
  buffered inside the transport).
\<close>

theorem activation_predicates:
  "read_predicate conn = (state conn \<notin> {Connecting, Closed}) \<and>
   write_predicate st conn =
     (state conn = Connecting \<or>
      (state conn \<in> {Connected, Closing, Closed} \<and>
       (send_buffer conn \<noteq> [] \<or> 0 < socket_buffer_bytes st (socket conn))))"
  by (auto simp: read_predicate_def write_predicate_def data_to_send_def)

theorem activation_predicates_witness:
  "read_predicate sample_connection \<and> write_predicate TCPSocket sample_connection \<and>
   state sample_connection = Connected \<and> send_buffer sample_connection \<noteq> []"
  using activation_predicates [of sample_connection TCPSocket]
  by (simp add: sample_connection_def)

section \<open>Identifiers that are not in the table\<close>

text \<open>
  C10. For an identifier with no entry in the connection table, \<open>queue_frame\<close>,
  \<open>close_connection\<close>, \<open>clear_buffer\<close>, \<open>peer_addr\<close> and \<open>buffer_bytes\<close> raise the
  exception of the table lookup; \<open>drop_connection\<close> alone returns, leaving the server as
  it was.
\<close>

theorem missing_identifier_raises:
  "map_of (connections s) connection_id = None \<Longrightarrow>
     queue_frame s connection_id frame = Inl out_of_range \<and>
     close_connection s connection_id = Inl out_of_range \<and>
     clear_buffer s connection_id = Inl out_of_range \<and>
     peer_addr s connection_id = Inl out_of_range \<and>
     buffer_bytes s connection_id = Inl out_of_range \<and>
     drop_connection s connection_id = s"
  by (simp add: queue_frame_def close_connection_def clear_buffer_def peer_addr_def
        buffer_bytes_def drop_connection_def at_def)

theorem missing_identifier_raises_witness:
  "map_of (connections sample_server) 7 = None \<and>
   queue_frame sample_server 7 \<lparr>fin = True, opcode = OpText, payload = ''hi''\<rparr> = Inl out_of_range \<and>
   close_connection sample_server 7 = Inl out_of_range \<and>
   clear_buffer sample_server 7 = Inl out_of_range \<and>
   peer_addr sample_server 7 = Inl out_of_range \<and>
   buffer_bytes sample_server 7 = Inl out_of_range \<and>
   drop_connection sample_server 7 = sample_server"
proof -
  have absent: "map_of (connections sample_server) 7 = None"
    by (simp add: sample_server_def)
  show ?thesis
    using absent missing_identifier_raises [OF absent] by simp
qed

section \<open>Draining the send buffer over a plain socket\<close>

lemma socket_write_le: "fst (socket_write sock buffer) \<le> length buffer"
  by (simp add: socket_write_def Let_def)

lemma socket_write_wire:
  "wire (snd (socket_write sock buffer)) = wire sock @ take (fst (socket_write sock buffer)) buffer"
  by (simp add: socket_write_def Let_def)

lemma write_TCPSocket_preserves_stream:
  "write_TCPSocket bufs sock = (bufs', sock') \<Longrightarrow>
     wire sock' @ concat bufs' = wire sock @ concat bufs"
proof (induction bufs sock rule: write_TCPSocket.induct)
  case (1 sock)
  then show ?case by simp
next
  case (2 buffer rest sock)
  show ?case
  proof (cases "fst (socket_write sock buffer) \<noteq> length buffer")
    case True
    with "2.prems" show ?thesis
      by (auto simp: socket_write_wire)
  next
    case False
    with 2 show ?thesis
      by (simp add: socket_write_wire)
  qed
qed

lemma write_TCPSocket_shape:
  "write_TCPSocket bufs sock = (bufs', sock') \<Longrightarrow>
     (bufs' = [] \<and> wire sock' = wire sock @ concat bufs) \<or>
     (\<exists>written buffer n.
        bufs = written @ buffer # tl bufs' \<and> n < length buffer \<and>
        bufs' = drop n buffer # tl bufs' \<and>
        wire sock' = wire sock @ concat written @ take n buffer)"
proof (induction bufs sock rule: write_TCPSocket.induct)
  case (1 sock)
  then show ?case by simp
next
  case (2 buffer rest sock)
  let ?n = "fst (socket_write sock buffer)"
  let ?sock1 = "snd (socket_write sock buffer)"
  show ?case
  proof (cases "?n \<noteq> length buffer")
    case True
    with "2.prems" have res: "bufs' = drop ?n buffer # rest" "sock' = ?sock1"
      by auto
    from True socket_write_le [of sock buffer] have "?n < length buffer"
      by simp
    with res show ?thesis
      by (intro disjI2 exI [of _ "[]"] exI [of _ buffer] exI [of _ ?n])
         (simp add: socket_write_wire)
  next
    case False
    with "2.prems" have rec: "write_TCPSocket rest ?sock1 = (bufs', sock')"
      by simp
    from False have full: "wire ?sock1 = wire sock @ buffer"
      by (simp add: socket_write_wire)
    from "2.IH" [OF _ rec] False
    consider (drained) "bufs' = []" "wire sock' = wire ?sock1 @ concat rest"
      | (stopped) written b n where "rest = written @ b # tl bufs'" "n < length b"
          "bufs' = drop n b # tl bufs'" "wire sock' = wire ?sock1 @ concat written @ take n b"
      by auto
    then show ?thesis
    proof cases
      case drained
      then show ?thesis by (simp add: full)
    next
      case stopped
      then show ?thesis
        by (intro disjI2 exI [of _ "buffer # written"] exI [of _ b] exI [of _ n])
           (simp add: full)
    qed
  qed
qed


text \<open>
  C7. A call of \<open>write()\<close> on a plain-transport connection drains the send buffer from
  the front: a head of which the transport takes only a proper prefix is replaced by its
  unwritten suffix and the loop stops; a head taken to its end is popped and the loop goes
  on with the next buffer. So the bytes on the wire followed by the bytes still queued are
  the bytes queued before, in the same order: whole buffers first, then a proper prefix of
  the buffer the loop stopped at.
\<close>

theorem plain_write_drains_in_order:
  "write_TCPSocket [] sock = ([], sock) \<and>
   (fst (socket_write sock buffer) < length buffer \<longrightarrow>
      write_TCPSocket (buffer # rest) sock =
        (drop (fst (socket_write sock buffer)) buffer # rest, snd (socket_write sock buffer))) \<and>
   (fst (socket_write sock buffer) = length buffer \<longrightarrow>
      write_TCPSocket (buffer # rest) sock =
        write_TCPSocket rest (snd (socket_write sock buffer))) \<and>
   send_buffer (Connection_write TCPSocket conn)
     = fst (write_TCPSocket (send_buffer conn) (socket conn)) \<and>
   socket (Connection_write TCPSocket conn)
     = snd (write_TCPSocket (send_buffer conn) (socket conn)) \<and>
   wire (socket (Connection_write TCPSocket conn)) @ concat (send_buffer (Connection_write TCPSocket conn))
     = wire (socket conn) @ concat (send_buffer conn) \<and>
   ((send_buffer (Connection_write TCPSocket conn) = [] \<and>
     wire (socket (Connection_write TCPSocket conn))
       = wire (socket conn) @ concat (send_buffer conn)) \<or>
    (\<exists>written head n.
       send_buffer conn = written @ head # tl (send_buffer (Connection_write TCPSocket conn)) \<and>
       n < length head \<and>
       send_buffer (Connection_write TCPSocket conn)
         = drop n head # tl (send_buffer (Connection_write TCPSocket conn)) \<and>
       wire (socket (Connection_write TCPSocket conn))
         = wire (socket conn) @ concat written @ take n head))"
proof -
  obtain bufs' sock' where w: "write_TCPSocket (send_buffer conn) (socket conn) = (bufs', sock')"
    by (cases "write_TCPSocket (send_buffer conn) (socket conn)")
  then have sb: "send_buffer (Connection_write TCPSocket conn) = bufs'"
    and so: "socket (Connection_write TCPSocket conn) = sock'"
    by (simp_all add: Connection_write_def)
  have steps: "write_TCPSocket [] sock = ([], sock)"
    "fst (socket_write sock buffer) < length buffer \<longrightarrow>
      write_TCPSocket (buffer # rest) sock =
        (drop (fst (socket_write sock buffer)) buffer # rest, snd (socket_write sock buffer))"
    "fst (socket_write sock buffer) = length buffer \<longrightarrow>
      write_TCPSocket (buffer # rest) sock =
        write_TCPSocket rest (snd (socket_write sock buffer))"
    by simp_all
  from steps write_TCPSocket_preserves_stream [OF w] write_TCPSocket_shape [OF w]
  show ?thesis
    unfolding sb so w fst_conv snd_conv by blast
qed

theorem plain_write_drains_in_order_witness:
  "send_buffer (Connection_write TCPSocket sample_connection) = [''rld''] \<and>
   wire (socket (Connection_write TCPSocket sample_connection)) = ''hellowo'' \<and>
   wire (socket sample_connection) @ concat (send_buffer sample_connection) = ''helloworld''"
proof -
  have w: "write_TCPSocket (send_buffer sample_connection) (socket sample_connection)
             = ([''rld''], sample_socket\<lparr>wire := ''hellowo'', accepts := []\<rparr>)"
    by (simp add: sample_connection_def socket_write_def sample_socket_def)
  have "send_buffer (Connection_write TCPSocket sample_connection)
          = fst (write_TCPSocket (send_buffer sample_connection) (socket sample_connection))"
    and "socket (Connection_write TCPSocket sample_connection)
          = snd (write_TCPSocket (send_buffer sample_connection) (socket sample_connection))"
    using plain_write_drains_in_order [of sample_socket "''hello''" "[''world'']" sample_connection]
    by blast+
  then have "send_buffer (Connection_write TCPSocket sample_connection) = [''rld'']"
    and "wire (socket (Connection_write TCPSocket sample_connection)) = ''hellowo''"
    by (simp_all add: w)
  moreover have "wire (socket sample_connection) @ concat (send_buffer sample_connection)
                   = ''helloworld''"
    by (simp add: sample_connection_def sample_socket_def)
  ultimately show ?thesis by blast
qed

section \<open>Dropping a connection\<close>

lemma map_of_modify:
  "map_of (modify k f m) k' = (if k' = k then map_option f (map_of m k) else map_of m k')"
  by (induction m) (auto simp: modify_def)

lemma modify_modify: "modify k f (modify k g m) = modify k (f \<circ> g) m"
  by (induction m) (auto simp: modify_def)

lemma length_modify: "length (modify k f m) = length m"
  by (simp add: modify_def)

lemma map_of_collected:
  "k \<in> A \<Longrightarrow> map_of (filter (\<lambda>(k', c). k' \<notin> A) m) k = None"
  by (induction m) auto

lemma collected_absent:
  "k \<in> closed_connections s \<Longrightarrow> map_of (connections (garbage_collect s)) k = None"
  by (simp add: garbage_collect_def map_of_collected)

text \<open>
  One call of \<open>drop_connection\<close>. On an identifier with no entry it changes nothing. On
  an identifier with an entry it sets the state to Closed, leaves the other entries alone,
  invokes \<open>close_callback\<close> and inserts the identifier into the closed set. A second
  call leaves the table and the closed set as the first call left them, and once the
  garbage collection has erased the entry a further call changes nothing.
\<close>

lemma drop_connection_effect:
  "(map_of (connections s) connection_id = None \<longrightarrow> drop_connection s connection_id = s) \<and>
   (map_of (connections s) connection_id = Some conn \<longrightarrow>
      map_of (connections (drop_connection s connection_id)) connection_id
        = Some (conn\<lparr>state := Closed\<rparr>) \<and>
      (\<forall>k. k \<noteq> connection_id \<longrightarrow>
         map_of (connections (drop_connection s connection_id)) k = map_of (connections s) k) \<and>
      upcalls (drop_connection s connection_id) = upcalls s @ [close_callback connection_id] \<and>
      closed_connections (drop_connection s connection_id)
        = insert connection_id (closed_connections s) \<and>
      connections (drop_connection (drop_connection s connection_id) connection_id)
        = connections (drop_connection s connection_id) \<and>
      closed_connections (drop_connection (drop_connection s connection_id) connection_id)
        = closed_connections (drop_connection s connection_id) \<and>
      drop_connection (garbage_collect (drop_connection s connection_id)) connection_id
        = garbage_collect (drop_connection s connection_id))"
proof (intro conjI impI)
  assume "map_of (connections s) connection_id = None"
  then show "drop_connection s connection_id = s"
    by (simp add: drop_connection_def)
next
  assume present: "map_of (connections s) connection_id = Some conn"
  let ?s1 = "drop_connection s connection_id"
  have s1: "?s1 = (update_conn connection_id (\<lambda>c. c\<lparr>state := Closed\<rparr>) s)
                    \<lparr>closed_connections := insert connection_id (closed_connections s),
                     upcalls := upcalls s @ [close_callback connection_id]\<rparr>"
    using present by (simp add: drop_connection_def)
  show entry: "map_of (connections ?s1) connection_id = Some (conn\<lparr>state := Closed\<rparr>)"
    using present by (simp add: s1 update_conn_def map_of_modify)
  show "\<forall>k. k \<noteq> connection_id \<longrightarrow> map_of (connections ?s1) k = map_of (connections s) k"
    by (simp add: s1 update_conn_def map_of_modify)
  show "upcalls ?s1 = upcalls s @ [close_callback connection_id]"
    by (simp add: s1 update_conn_def)
  show closed: "closed_connections ?s1 = insert connection_id (closed_connections s)"
    by (simp add: s1 update_conn_def)
  have s2: "drop_connection ?s1 connection_id
              = (update_conn connection_id (\<lambda>c. c\<lparr>state := Closed\<rparr>) ?s1)
                  \<lparr>closed_connections := insert connection_id (closed_connections ?s1),
                   upcalls := upcalls ?s1 @ [close_callback connection_id]\<rparr>"
    using entry by (simp add: drop_connection_def [of ?s1])
  have idem: "modify connection_id ((\<lambda>c. c\<lparr>state := Closed\<rparr>) \<circ> (\<lambda>c. c\<lparr>state := Closed\<rparr>)) m
                = modify connection_id (\<lambda>c. c\<lparr>state := Closed\<rparr>) m" for m
    by (simp add: comp_def)
  show "connections (drop_connection ?s1 connection_id) = connections ?s1"
    unfolding s2 by (simp add: s1 update_conn_def modify_modify idem)
  show "closed_connections (drop_connection ?s1 connection_id) = closed_connections ?s1"
    unfolding s2 by (simp add: s1 update_conn_def)
  from closed have "connection_id \<in> closed_connections ?s1"
    by simp
  then have "map_of (connections (garbage_collect ?s1)) connection_id = None"
    by (rule collected_absent)
  then show "drop_connection (garbage_collect ?s1) connection_id = garbage_collect ?s1"
    by (simp add: drop_connection_def)
qed

lemma two_drops_call_back_twice:
  "upcalls (drop_connection (drop_connection sample_server 0) 0)
     = [open_callback 0, close_callback 0, close_callback 0]"
  by (simp add: drop_connection_def sample_server_def update_conn_def modify_def)

text \<open>
  Under the poller as modelled, both actions of one connection can reach
  \<open>drop_connection\<close> in one poll: the peer closes while the last buffers can still be
  written, the read action drops the connection, and the write action, which was ready as
  well, drains the buffer of the now Closed connection and drops it again.
\<close>

lemma eof_then_drain_calls_back_twice_in_one_poll:
  "map_sum id upcalls (poll draining_server [ReadReady 0 [] [] (Completes []), WriteReady 0])
     = Inr [open_callback 0, close_callback 0, close_callback 0]"
proof -
  let ?c0 = "sample_connection\<lparr>socket := sample_socket\<lparr>accepts := [5, 5]\<rparr>\<rparr>"
  let ?s1 = "drop_connection draining_server 0"
  have entry: "map_of (connections draining_server) 0 = Some ?c0"
    by (simp add: draining_server_def)
  have preds: "read_predicate ?c0" "write_predicate TCPSocket ?c0"
    "socket_type draining_server = TCPSocket"
    by (simp_all add: read_predicate_def write_predicate_def data_to_send_def
          sample_connection_def draining_server_def sample_server_def)
  have r: "read_action draining_server 0 [] [] (Completes []) = Inr (CancelAll, ?s1)"
    by (simp add: read_action_def at_def entry)
  have w: "write_TCPSocket [''hello'', ''world''] (sample_socket\<lparr>accepts := [5, 5]\<rparr>)
             = ([], sample_socket\<lparr>wire := ''helloworld'', accepts := []\<rparr>)"
    by (simp add: socket_write_def sample_socket_def)
  have "map_sum id (upcalls \<circ> snd) (write_action ?s1 0)
          = Inr [open_callback 0, close_callback 0, close_callback 0]"
    using w
    by (simp add: write_action_def at_def Let_def drop_connection_def update_conn_def modify_def
          data_to_send_def socket_buffer_bytes_def Connection_write_def
          draining_server_def sample_server_def sample_connection_def)
  then show ?thesis
    by (auto simp: poll_def dispatch_def entry preds r split: sum.splits)
qed

text \<open>
  C3. The claim: \<open>drop_connection\<close> is idempotent, and \<open>close_callback\<close> is invoked
  exactly once for a live connection however often \<open>drop_connection\<close> is called on its
  identifier. The source guards only against an identifier that is no longer in the table,
  and the entry stays in the table until the garbage collection at the end of
  \<open>loop_once\<close>: a second call before that invokes \<open>close_callback\<close> a second time,
  called directly, and within one poll when the read action drops the connection on the
  peer's end of file and the write action then drains the send buffer and drops it again.
\<close>

theorem close_callback_invoked_twice:
  "upcalls sample_server = [open_callback 0] \<and>
   upcalls (drop_connection (drop_connection sample_server 0) 0)
     = [open_callback 0, close_callback 0, close_callback 0] \<and>
   upcalls draining_server = [open_callback 0] \<and>
   map_sum id upcalls (poll draining_server [ReadReady 0 [] [] (Completes []), WriteReady 0])
     = Inr [open_callback 0, close_callback 0, close_callback 0]"
  using two_drops_call_back_twice eof_then_drain_calls_back_twice_in_one_poll
  by (simp add: sample_server_def draining_server_def)

theorem close_callback_invoked_twice_witness:
  "upcalls (drop_connection (drop_connection sample_server 0) 0)
     \<noteq> upcalls sample_server @ [close_callback 0] \<and>
   map_sum id upcalls (poll draining_server [ReadReady 0 [] [] (Completes []), WriteReady 0])
     \<noteq> Inr (upcalls draining_server @ [close_callback 0])"
  using close_callback_invoked_twice
  by simp

section \<open>SHA-1 of the sample key, evaluated\<close>

lemma replicate_numeral: "replicate (numeral k) x = x # replicate (pred_numeral k) x"
  by (simp add: numeral_eq_Suc)

lemma expand_numeral:
  "expand (numeral k) win = next_word win # expand (pred_numeral k) (tl win @ [next_word win])"
  by (simp add: numeral_eq_Suc)

lemma sha1_rounds_append:
  "sha1_rounds t (xs @ ys) h = sha1_rounds (t + length xs) ys (sha1_rounds t xs h)"
  by (induction t xs h rule: sha1_rounds.induct) (simp_all add: add.assoc add.commute)

lemma sample_blocks: "blocks (be_words (sha1_pad (sample_key @ WS_MAGIC_STRING))) = [blk1, blk2]"
  by (simp add: sha1_pad_def length_bytes_def replicate_numeral sample_key_def
        WS_MAGIC_STRING_def blk1_def blk2_def)

lemma blk1_expand: "expand 64 blk1 = blk1_expanded"
  by (simp add: blk1_def blk1_expanded_def expand_numeral next_word_def rotl_def)

lemma blk1_schedule: "schedule blk1 = blk1_w0 @ blk1_w20 @ blk1_w40 @ blk1_w60"
  by (simp add: schedule_def blk1_expand)
     (simp add: blk1_def blk1_expanded_def blk1_w0_def blk1_w20_def blk1_w40_def blk1_w60_def)

lemma blk1_rounds_0: "sha1_rounds 0 blk1_w0 blk1_h0 = blk1_h20"
  by (simp add: blk1_w0_def blk1_h0_def blk1_h20_def rotl_def sha1_f_def sha1_k_def add32_def not32_def)

lemma blk1_rounds_20: "sha1_rounds 20 blk1_w20 blk1_h20 = blk1_h40"
  by (simp add: blk1_w20_def blk1_h20_def blk1_h40_def rotl_def sha1_f_def sha1_k_def add32_def not32_def)

lemma blk1_rounds_40: "sha1_rounds 40 blk1_w40 blk1_h40 = blk1_h60"
  by (simp add: blk1_w40_def blk1_h40_def blk1_h60_def rotl_def sha1_f_def sha1_k_def add32_def not32_def)

lemma blk1_rounds_60: "sha1_rounds 60 blk1_w60 blk1_h60 = blk1_h80"
  by (simp add: blk1_w60_def blk1_h60_def blk1_h80_def rotl_def sha1_f_def sha1_k_def add32_def not32_def)

lemma blk1_rounds: "sha1_rounds 0 (schedule blk1) blk1_h0 = blk1_h80"
proof -
  have len: "length blk1_w0 = 20" "length blk1_w20 = 20" "length blk1_w40 = 20"
    by (simp_all add: blk1_w0_def blk1_w20_def blk1_w40_def)
  show ?thesis
    by (simp add: blk1_schedule sha1_rounds_append len
          blk1_rounds_0 blk1_rounds_20 blk1_rounds_40 blk1_rounds_60)
qed

lemma blk2_expand: "expand 64 blk2 = blk2_expanded"
  by (simp add: blk2_def blk2_expanded_def expand_numeral next_word_def rotl_def)

lemma blk2_schedule: "schedule blk2 = blk2_w0 @ blk2_w20 @ blk2_w40 @ blk2_w60"
  by (simp add: schedule_def blk2_expand)
     (simp add: blk2_def blk2_expanded_def blk2_w0_def blk2_w20_def blk2_w40_def blk2_w60_def)

lemma blk2_rounds_0: "sha1_rounds 0 blk2_w0 blk2_h0 = blk2_h20"
  by (simp add: blk2_w0_def blk2_h0_def blk2_h20_def rotl_def sha1_f_def sha1_k_def add32_def not32_def)

lemma blk2_rounds_20: "sha1_rounds 20 blk2_w20 blk2_h20 = blk2_h40"
  by (simp add: blk2_w20_def blk2_h20_def blk2_h40_def rotl_def sha1_f_def sha1_k_def add32_def not32_def)

lemma blk2_rounds_40: "sha1_rounds 40 blk2_w40 blk2_h40 = blk2_h60"
  by (simp add: blk2_w40_def blk2_h40_def blk2_h60_def rotl_def sha1_f_def sha1_k_def add32_def not32_def)

lemma blk2_rounds_60: "sha1_rounds 60 blk2_w60 blk2_h60 = blk2_h80"
  by (simp add: blk2_w60_def blk2_h60_def blk2_h80_def rotl_def sha1_f_def sha1_k_def add32_def not32_def)

lemma blk2_rounds: "sha1_rounds 0 (schedule blk2) blk2_h0 = blk2_h80"
proof -
  have len: "length blk2_w0 = 20" "length blk2_w20 = 20" "length blk2_w40 = 20"
    by (simp_all add: blk2_w0_def blk2_w20_def blk2_w40_def)
  show ?thesis
    by (simp add: blk2_schedule sha1_rounds_append len
          blk2_rounds_0 blk2_rounds_20 blk2_rounds_40 blk2_rounds_60)
qed

lemma blk1_compress: "compress sha1_init blk1 = blk2_h0"
proof -
  have init: "sha1_init = blk1_h0"
    by (simp add: sha1_init_def blk1_h0_def)
  show ?thesis
    unfolding init compress_def blk1_rounds
    by (simp add: blk1_h0_def blk1_h80_def blk2_h0_def add32_def)
qed

lemma blk2_compress: "compress blk2_h0 blk2 = sample_state"
  unfolding compress_def blk2_rounds
  by (simp add: blk2_h0_def blk2_h80_def sample_state_def add32_def)

lemma sample_digest:
  "sha1_digest (sample_key @ WS_MAGIC_STRING) =
     [179, 122, 79, 44, 192, 98, 79, 22, 144, 246, 70, 6, 207, 56, 89, 69, 178, 190, 196, 234]"
  by (simp only: sha1_digest_def sample_blocks foldl.simps blk1_compress blk2_compress)
     (simp add: sample_state_def)

lemma sample_accept:
  "base64 (sha1 (sample_key @ WS_MAGIC_STRING)) = ''s3pPLMBiTxaQ9kYGzzhZRbK+xOo=''"
  by (simp add: base64_def sha1_def sample_digest base64_char_def base64_alphabet_def comp_def)

text \<open>
  C6. A valid handshake request with an \<open>Origin\<close> header and the key \<open>K\<close> is answered with
  101 Switching Protocols, whose \<open>Sec-WebSocket-Accept\<close> header is the Base64 form of the
  SHA-1 digest of \<open>K\<close> followed by \<open>258EAFA5-E914-47DA-95CA-C5AB0DC85B11\<close>; every 101
  response the function returns carries that header for the key of its request; for the key
  \<open>dGhlIHNhbXBsZSBub25jZQ==\<close> that value is \<open>s3pPLMBiTxaQ9kYGzzhZRbK+xOo=\<close>.
\<close>

theorem accept_header_of_key:
  "(is_valid_handshake_request req \<and> has_header req ''Origin'' \<and>
    get_header_value req ''Sec-WebSocket-Key'' = Some K \<longrightarrow>
      (\<exists>resp. create_handshake_response req = Inr resp \<and>
         first_line resp = ''HTTP/1.1 101 Switching Protocols'' \<and>
         status_code resp = ''101'' \<and>
         headers resp =
           [(''Connection'', ''Upgrade''), (''Upgrade'', ''websocket''),
            (''Sec-WebSocket-Accept'',
               base64 (sha1 (K @ ''258EAFA5-E914-47DA-95CA-C5AB0DC85B11'')))] \<and>
         body resp = [])) \<and>
   (\<forall>resp. create_handshake_response req = Inr resp \<and> status_code resp = ''101'' \<longrightarrow>
      (\<exists>key. get_header_value req ''Sec-WebSocket-Key'' = Some key \<and>
         map_of (headers resp) ''Sec-WebSocket-Accept''
           = Some (base64 (sha1 (key @ ''258EAFA5-E914-47DA-95CA-C5AB0DC85B11''))))) \<and>
   base64 (sha1 (''dGhlIHNhbXBsZSBub25jZQ=='' @ ''258EAFA5-E914-47DA-95CA-C5AB0DC85B11''))
     = ''s3pPLMBiTxaQ9kYGzzhZRbK+xOo=''"
proof (intro conjI impI allI)
  assume "is_valid_handshake_request req \<and> has_header req ''Origin'' \<and>
    get_header_value req ''Sec-WebSocket-Key'' = Some K"
  then show "\<exists>resp. create_handshake_response req = Inr resp \<and>
         first_line resp = ''HTTP/1.1 101 Switching Protocols'' \<and>
         status_code resp = ''101'' \<and>
         headers resp =
           [(''Connection'', ''Upgrade''), (''Upgrade'', ''websocket''),
            (''Sec-WebSocket-Accept'',
               base64 (sha1 (K @ ''258EAFA5-E914-47DA-95CA-C5AB0DC85B11'')))] \<and>
         body resp = []"
    by (simp add: create_handshake_response_def WS_MAGIC_STRING_def status_code_def
          read_in_body_def add_header_def set_first_line_def set_request_def empty_response_def)
next
  fix resp
  assume "create_handshake_response req = Inr resp \<and> status_code resp = ''101''"
  then show "\<exists>key. get_header_value req ''Sec-WebSocket-Key'' = Some key \<and>
         map_of (headers resp) ''Sec-WebSocket-Accept''
           = Some (base64 (sha1 (key @ ''258EAFA5-E914-47DA-95CA-C5AB0DC85B11'')))"
    by (auto simp: create_handshake_response_def WS_MAGIC_STRING_def status_code_def
          error_response_def read_in_body_def add_header_def set_first_line_def set_request_def
          empty_response_def
          split: if_splits option.splits)
next
  show "base64 (sha1 (''dGhlIHNhbXBsZSBub25jZQ=='' @ ''258EAFA5-E914-47DA-95CA-C5AB0DC85B11''))
          = ''s3pPLMBiTxaQ9kYGzzhZRbK+xOo=''"
    using sample_accept by (simp only: sample_key_def WS_MAGIC_STRING_def)
qed

lemma sample_request_valid:
  "is_valid_handshake_request sample_request \<and> has_header sample_request ''Origin'' \<and>
   get_header_value sample_request ''Sec-WebSocket-Key'' = Some ''dGhlIHNhbXBsZSBub25jZQ==''"
  by (simp add: sample_request_def is_valid_handshake_request_def substr_def substr_from_def
        has_header_def get_header_value_def)

theorem accept_header_of_key_witness:
  "is_valid_handshake_request sample_request \<and> has_header sample_request ''Origin'' \<and>
   (\<exists>resp. create_handshake_response sample_request = Inr resp \<and>
      status_code resp = ''101'' \<and>
      map_of (headers resp) ''Sec-WebSocket-Accept'' = Some ''s3pPLMBiTxaQ9kYGzzhZRbK+xOo='')"
proof -
  from accept_header_of_key [of sample_request "''dGhlIHNhbXBsZSBub25jZQ==''"] sample_request_valid
  obtain resp where "create_handshake_response sample_request = Inr resp"
    "status_code resp = ''101''"
    "headers resp =
       [(''Connection'', ''Upgrade''), (''Upgrade'', ''websocket''),
        (''Sec-WebSocket-Accept'', ''s3pPLMBiTxaQ9kYGzzhZRbK+xOo='')]"
    by auto
  with sample_request_valid show ?thesis
    by simp
qed

section \<open>The listener and the population cap\<close>

lemma same_population_refl [simp]: "same_population s s"
  by (simp add: same_population_def)

lemma same_population_trans:
  "same_population s s1 \<Longrightarrow> same_population s1 s2 \<Longrightarrow> same_population s s2"
  by (simp add: same_population_def)

lemma update_conn_population [simp]: "same_population s (update_conn k f s)"
  by (simp add: same_population_def update_conn_def length_modify)

lemma update_conn_upcalls_population [simp]:
  "same_population s ((update_conn k f s)\<lparr>upcalls := u\<rparr>)"
  by (simp add: same_population_def update_conn_def length_modify)

lemma drop_connection_population [simp]: "same_population s (drop_connection s k)"
  by (simp add: same_population_def drop_connection_def update_conn_def length_modify
        split: option.splits)

lemma queue_frame_population:
  "queue_frame s k f = Inr (b, s') \<Longrightarrow> same_population s s'"
  by (auto simp: queue_frame_def split: sum.splits if_splits)

lemma close_connection_population:
  "close_connection s k = Inr s' \<Longrightarrow> same_population s s'"
  by (auto simp: close_connection_def split: sum.splits if_splits prod.splits
        dest!: queue_frame_population intro: same_population_trans)

lemma handle_handshake_population:
  "handle_handshake s k q = Inr (r, s') \<Longrightarrow> same_population s s'"
  by (auto simp: handle_handshake_def split: list.splits sum.splits if_splits
        intro: same_population_trans [OF update_conn_population drop_connection_population])

lemma handle_message_population:
  "handle_message s k q = Inr (r, s') \<Longrightarrow> same_population s s'"
  by (auto simp: handle_message_def
        split: list.splits sum.splits if_splits MessageType.splits prod.splits
        dest!: queue_frame_population
        intro: same_population_trans [OF update_conn_population]
               same_population_trans [OF _ update_conn_population])

lemma handle_closing_population:
  "handle_closing s k q = Inr (r, s') \<Longrightarrow> same_population s s'"
  by (auto simp: handle_closing_def split: list.splits MessageType.splits
        intro: same_population_trans [OF update_conn_population drop_connection_population])

lemma read_action_population:
  "read_action s k data reqs msgs = Inr (r, s') \<Longrightarrow> same_population s s'"
  by (auto simp: read_action_def
        split: sum.splits if_splits State.splits parsed.splits
        dest: handle_handshake_population handle_message_population handle_closing_population
              close_connection_population)

lemma write_action_population:
  "write_action s k = Inr (r, s') \<Longrightarrow> same_population s s'"
  by (auto simp: write_action_def Let_def
        split: sum.splits if_splits
        intro: same_population_trans [OF _ drop_connection_population])


lemma same_population_below_cap:
  "same_population s s' \<Longrightarrow> below_cap_if_active s \<Longrightarrow> below_cap_if_active s'"
  by (simp add: same_population_def below_cap_if_active_def)

lemma accept_cap:
  "active (snd (accept s client))
     = (active s \<and> length (connections (snd (accept s client))) < MAX_CONNECTION_NUM)"
  by (auto simp: accept_def Let_def)

lemma accept_at_cap:
  "MAX_CONNECTION_NUM \<le> length (connections (snd (accept s client))) \<Longrightarrow>
     fst (accept s client) = CancelAll \<and> \<not> active (snd (accept s client)) \<and>
     \<not> listener_open (snd (accept s client))"
  by (cases "MAX_CONNECTION_NUM
               \<le> length (emplace (last_connection_id s) (new_Connection client) (connections s))")
     (simp_all add: accept_def Let_def)

lemma dispatch_below_cap:
  "dispatch s0 s ev = Inr s' \<Longrightarrow> below_cap_if_active s \<Longrightarrow> below_cap_if_active s'"
proof (cases ev)
  case (Accept client)
  assume "dispatch s0 s ev = Inr s'" "below_cap_if_active s"
  with Accept show ?thesis
    using accept_cap [of s client]
    by (auto simp: dispatch_def below_cap_if_active_def split: if_splits)
next
  case (ReadReady k data reqs msgs)
  assume "dispatch s0 s ev = Inr s'" "below_cap_if_active s"
  with ReadReady show ?thesis
    by (auto simp: dispatch_def split: option.splits if_splits sum.splits
          dest!: read_action_population dest: same_population_below_cap)
next
  case (WriteReady k)
  assume "dispatch s0 s ev = Inr s'" "below_cap_if_active s"
  with WriteReady show ?thesis
    by (auto simp: dispatch_def split: option.splits if_splits sum.splits
          dest!: write_action_population dest: same_population_below_cap)
qed

lemma dispatch_all_below_cap:
  "dispatch_all s0 s evs = Inr s' \<Longrightarrow> below_cap_if_active s \<Longrightarrow> below_cap_if_active s'"
proof (induction evs arbitrary: s)
  case Nil
  then show ?case by simp
next
  case (Cons ev evs)
  then show ?case
    by (auto split: sum.splits dest: dispatch_below_cap)
qed

lemma garbage_collect_shrinks:
  "length (connections (garbage_collect s)) \<le> length (connections s) \<and>
   active (garbage_collect s) = active s"
  by (simp add: garbage_collect_def)

lemma loop_once_active_iff:
  assumes "below_cap_if_active s" and "loop_once s evs = Inr s'"
  shows "active s' = (length (connections s') < MAX_CONNECTION_NUM)"
proof -
  from assms(2) obtain s1 where polled: "poll s evs = Inr s1"
    and s': "s' = (if \<not> active (garbage_collect s1) \<and>
                     length (connections (garbage_collect s1)) < MAX_CONNECTION_NUM
                  then init_listener_socket (garbage_collect s1) else garbage_collect s1)"
    by (auto simp: loop_once_def Let_def split: sum.splits if_splits)
  from polled assms(1) have "below_cap_if_active s1"
    by (auto simp: poll_def dest: dispatch_all_below_cap)
  with garbage_collect_shrinks [of s1] have "below_cap_if_active (garbage_collect s1)"
    by (auto simp: below_cap_if_active_def)
  then show ?thesis
    unfolding s' by (auto simp: below_cap_if_active_def init_listener_socket_def)
qed

lemma loop_active_iff:
  "below_cap_if_active s \<Longrightarrow> iterations \<noteq> [] \<Longrightarrow> loop s iterations = Inr s' \<Longrightarrow>
     active s' = (length (connections s') < MAX_CONNECTION_NUM)"
proof (induction iterations arbitrary: s)
  case Nil
  then show ?case by simp
next
  case (Cons evs rest)
  from Cons.prems(3) obtain s1 where once: "loop_once s evs = Inr s1"
    and rest: "loop s1 rest = Inr s'"
    by (auto split: sum.splits)
  from loop_once_active_iff [OF Cons.prems(1) once]
  have s1: "active s1 = (length (connections s1) < MAX_CONNECTION_NUM)" .
  show ?case
  proof (cases rest)
    case Nil
    with rest s1 show ?thesis by simp
  next
    case (Cons evs' rest')
    from s1 have "below_cap_if_active s1"
      by (auto simp: below_cap_if_active_def)
    from Cons.IH [OF this _ rest] Cons show ?thesis
      by simp
  qed
qed

lemma new_WSServer_below_cap: "below_cap_if_active (new_WSServer st addr)"
  by (simp add: below_cap_if_active_def new_WSServer_def init_listener_socket_def
        MAX_CONNECTION_NUM_def)

text \<open>
  C5. After the garbage collection at the end of every \<open>loop_once\<close>, the listener is
  active exactly when the table holds fewer connections than the cap of 60: from the
  constructed server through any number of iterations, and from any state in which an
  active listener comes with a table below the cap. The accept callback clears the flag,
  closes the listener and cancels its action when the count after the insertion reaches the
  cap; \<open>loop_once\<close> sets the listener up again when the flag is false and the count is
  below the cap.
\<close>

theorem listener_active_iff_below_cap:
  "(\<forall>iterations s'. iterations \<noteq> [] \<and> loop (new_WSServer st addr) iterations = Inr s' \<longrightarrow>
      active s' = (length (connections s') < MAX_CONNECTION_NUM)) \<and>
   (\<forall>s evs s'. (active s \<longrightarrow> length (connections s) < MAX_CONNECTION_NUM) \<and>
      loop_once s evs = Inr s' \<longrightarrow>
      active s' = (length (connections s') < MAX_CONNECTION_NUM)) \<and>
   (\<forall>s client. MAX_CONNECTION_NUM \<le> length (connections (snd (accept s client))) \<longrightarrow>
      fst (accept s client) = CancelAll \<and> \<not> active (snd (accept s client)) \<and>
      \<not> listener_open (snd (accept s client))) \<and>
   (\<forall>s evs s1. poll s evs = Inr s1 \<and> \<not> active (garbage_collect s1) \<and>
      length (connections (garbage_collect s1)) < MAX_CONNECTION_NUM \<longrightarrow>
      loop_once s evs = Inr (init_listener_socket (garbage_collect s1))) \<and>
   MAX_CONNECTION_NUM = 60"
proof (intro conjI allI impI)
  fix iterations s'
  assume "iterations \<noteq> [] \<and> loop (new_WSServer st addr) iterations = Inr s'"
  then show "active s' = (length (connections s') < MAX_CONNECTION_NUM)"
    using loop_active_iff [OF new_WSServer_below_cap] by blast
next
  fix s evs s'
  assume a: "(active s \<longrightarrow> length (connections s) < MAX_CONNECTION_NUM) \<and> loop_once s evs = Inr s'"
  then have "below_cap_if_active s"
    by (auto simp: below_cap_if_active_def)
  with a show "active s' = (length (connections s') < MAX_CONNECTION_NUM)"
    using loop_once_active_iff by blast
next
  fix s client
  assume "MAX_CONNECTION_NUM \<le> length (connections (snd (accept s client)))"
  then show "fst (accept s client) = CancelAll" "\<not> active (snd (accept s client))"
    "\<not> listener_open (snd (accept s client))"
    using accept_at_cap by blast+
next
  fix s evs s1
  assume "poll s evs = Inr s1 \<and> \<not> active (garbage_collect s1) \<and>
      length (connections (garbage_collect s1)) < MAX_CONNECTION_NUM"
  then show "loop_once s evs = Inr (init_listener_socket (garbage_collect s1))"
    by (simp add: loop_once_def Let_def)
next
  show "MAX_CONNECTION_NUM = 60"
    by (simp add: MAX_CONNECTION_NUM_def)
qed


lemma first_accept:
  "loop (new_WSServer TCPSocket ''0.0.0.0:9361'') [[Accept sample_socket]]
     = Inr ((new_WSServer TCPSocket ''0.0.0.0:9361'')
              \<lparr>last_connection_id := 1, connections := [(0, new_Connection sample_socket)]\<rparr>)"
  by (simp add: loop_once_def poll_def dispatch_def accept_def emplace_def new_WSServer_def
        init_listener_socket_def garbage_collect_def MAX_CONNECTION_NUM_def)

lemma map_fst_modify: "map fst (modify k f m) = map fst m"
  by (induction m) (auto simp: modify_def)

lemma length_filter_keys:
  "length (filter (\<lambda>(k, c). P k) m) = length (filter P (map fst m))"
  by (induction m) auto

lemma crowded_first: "map_of (connections crowded_server) 0 = Some (new_Connection sample_socket)"
  by (simp add: crowded_server_def upt_conv_Cons [of 0 60])

lemma crowded_eof_read:
  "read_action crowded_server 0 [] [] (Completes [])
     = Inr (CancelAll, drop_connection crowded_server 0)"
  by (simp add: read_action_def at_def crowded_first)

lemma crowded_eof_poll:
  "poll crowded_server [ReadReady 0 [] [] (Completes [])] = Inr (drop_connection crowded_server 0)"
  by (simp add: poll_def dispatch_def crowded_first crowded_eof_read read_predicate_def
        new_Connection_def)

lemma crowded_eof_collected:
  "length (connections (garbage_collect (drop_connection crowded_server 0))) = 59 \<and>
   \<not> active (garbage_collect (drop_connection crowded_server 0))"
proof -
  have keys: "map fst (connections crowded_server) = [0..<60]"
    by (simp add: crowded_server_def comp_def)
  have "filter (\<lambda>k. k \<noteq> 0) [0..<60] = [1..<60]"
    by (simp add: upt_conv_Cons [of 0 60])
  then have "length (filter (\<lambda>k. k \<notin> {0}) (map fst (modify 0 f (connections crowded_server)))) = 59"
    for f
    by (simp add: map_fst_modify keys)
  moreover have "closed_connections crowded_server = {}" "\<not> active crowded_server"
    by (simp_all add: crowded_server_def)
  ultimately show ?thesis
    by (simp add: garbage_collect_def drop_connection_def crowded_first update_conn_def
          length_filter_keys)
qed

lemma crowded_eof:
  "loop_once crowded_server [ReadReady 0 [] [] (Completes [])]
     = Inr (init_listener_socket (garbage_collect (drop_connection crowded_server 0)))"
  by (simp add: loop_once_def crowded_eof_poll crowded_eof_collected MAX_CONNECTION_NUM_def)


theorem listener_active_iff_below_cap_witness:
  "(\<exists>s'. loop (new_WSServer TCPSocket ''0.0.0.0:9361'') [[Accept sample_socket]] = Inr s' \<and>
          active s' \<and> length (connections s') = 1) \<and>
   \<not> active crowded_server \<and> length (connections crowded_server) = 60 \<and>
   (\<exists>s'. loop_once crowded_server [ReadReady 0 [] [] (Completes [])] = Inr s' \<and>
          active s' \<and> length (connections s') = 59)"
proof -
  note claim = listener_active_iff_below_cap [of TCPSocket "''0.0.0.0:9361''"]
  let ?s1 = "(new_WSServer TCPSocket ''0.0.0.0:9361'')
               \<lparr>last_connection_id := 1, connections := [(0, new_Connection sample_socket)]\<rparr>"
  let ?s2 = "init_listener_socket (garbage_collect (drop_connection crowded_server 0))"
  have crowded: "\<not> active crowded_server" "length (connections crowded_server) = 60"
    by (simp_all add: crowded_server_def)
  have len1: "length (connections ?s1) = 1"
    by simp
  from claim first_accept have "active ?s1 = (length (connections ?s1) < MAX_CONNECTION_NUM)"
    by blast
  with len1 have act1: "active ?s1"
    by (simp add: MAX_CONNECTION_NUM_def)
  have len2: "length (connections ?s2) = 59"
    using crowded_eof_collected by (simp add: init_listener_socket_def)
  from claim crowded(1) crowded_eof
  have "active ?s2 = (length (connections ?s2) < MAX_CONNECTION_NUM)"
    by blast
  with len2 have act2: "active ?s2"
    by (simp add: MAX_CONNECTION_NUM_def)
  from first_accept act1 len1 crowded crowded_eof act2 len2 show ?thesis
    by blast
qed

section \<open>The read action of a Connected connection\<close>

lemma at_present: "map_of m k = Some c \<Longrightarrow> at m k = Inr c"
  by (simp add: at_def)

lemma at_update_conn:
  "map_of (connections s) k = Some c \<Longrightarrow> at (connections (update_conn k f s)) k = Inr (f c)"
  by (simp add: at_def update_conn_def map_of_modify)

lemma update_conn_twice: "update_conn k f (update_conn k g s) = update_conn k (f \<circ> g) s"
  by (simp add: update_conn_def modify_modify)

text \<open>
  C2, as the code has it. A read on a Connected connection whose bytes the message parser
  accepts handles one message, the one at the front of the parser's queue (what was left
  from earlier reads, then what these bytes completed), and leaves the others queued in
  order: Text or Binary invokes \<open>message_callback\<close> with it, Close queues a Close frame
  with the client's payload and sets the state to Closed, Ping queues a Pong with an empty
  payload, Pong is dropped. With nothing in the queue the dispatch changes nothing.
\<close>

theorem connected_read_handles_front_message:
  assumes "map_of (connections s) conn_id = Some conn" and "state conn = Connected"
    and "data \<noteq> []"
  shows "(ws_message_parser conn @ ms = [] \<longrightarrow>
            read_action s conn_id data reqs (Completes ms)
              = Inr (Continue, update_conn conn_id (\<lambda>c. c\<lparr>ws_message_parser := []\<rparr>) s)) \<and>
         (ws_message_parser conn @ ms = message # rest \<longrightarrow>
            read_action s conn_id data reqs (Completes ms)
              = Inr (Continue,
                  (case msg_type message of
                     Text \<Rightarrow>
                       (update_conn conn_id (\<lambda>c. c\<lparr>ws_message_parser := rest\<rparr>) s)
                         \<lparr>upcalls := upcalls s @ [message_callback conn_id message]\<rparr>
                   | Binary \<Rightarrow>
                       (update_conn conn_id (\<lambda>c. c\<lparr>ws_message_parser := rest\<rparr>) s)
                         \<lparr>upcalls := upcalls s @ [message_callback conn_id message]\<rparr>
                   | Close \<Rightarrow>
                       update_conn conn_id
                         (\<lambda>c. c\<lparr>ws_message_parser := rest,
                                send_buffer := send_buffer c
                                  @ [to_string \<lparr>fin = True, opcode = OpClose,
                                                payload = msg_payload message\<rparr>],
                                frames_queued := frames_queued c
                                  @ [\<lparr>fin = True, opcode = OpClose,
                                       payload = msg_payload message\<rparr>],
                                state := Closed\<rparr>) s
                   | Ping \<Rightarrow>
                       update_conn conn_id
                         (\<lambda>c. c\<lparr>ws_message_parser := rest,
                                send_buffer := send_buffer c
                                  @ [to_string \<lparr>fin = True, opcode = OpPong, payload = []\<rparr>],
                                frames_queued := frames_queued c
                                  @ [\<lparr>fin = True, opcode = OpPong, payload = []\<rparr>]\<rparr>) s
                   | Pong \<Rightarrow>
                       update_conn conn_id (\<lambda>c. c\<lparr>ws_message_parser := rest\<rparr>) s)))"
proof (intro conjI impI)
  assume "ws_message_parser conn @ ms = []"
  with assms show "read_action s conn_id data reqs (Completes ms)
      = Inr (Continue, update_conn conn_id (\<lambda>c. c\<lparr>ws_message_parser := []\<rparr>) s)"
    by (simp add: read_action_def at_present handle_message_def)
next
  assume q: "ws_message_parser conn @ ms = message # rest"
  have queued: "queue_frame (update_conn conn_id (\<lambda>c. c\<lparr>ws_message_parser := rest\<rparr>) s) conn_id f
      = Inr (True, update_conn conn_id
               (\<lambda>c. c\<lparr>ws_message_parser := rest,
                      send_buffer := send_buffer c @ [to_string f],
                      frames_queued := frames_queued c @ [f]\<rparr>) s)" for f
    using assms(1,2)
    by (simp add: queue_frame_def at_update_conn update_conn_twice comp_def)
  from assms q show "read_action s conn_id data reqs (Completes ms)
      = Inr (Continue,
          (case msg_type message of
             Text \<Rightarrow>
               (update_conn conn_id (\<lambda>c. c\<lparr>ws_message_parser := rest\<rparr>) s)
                 \<lparr>upcalls := upcalls s @ [message_callback conn_id message]\<rparr>
           | Binary \<Rightarrow>
               (update_conn conn_id (\<lambda>c. c\<lparr>ws_message_parser := rest\<rparr>) s)
                 \<lparr>upcalls := upcalls s @ [message_callback conn_id message]\<rparr>
           | Close \<Rightarrow>
               update_conn conn_id
                 (\<lambda>c. c\<lparr>ws_message_parser := rest,
                        send_buffer := send_buffer c
                          @ [to_string \<lparr>fin = True, opcode = OpClose,
                                        payload = msg_payload message\<rparr>],
                        frames_queued := frames_queued c
                          @ [\<lparr>fin = True, opcode = OpClose,
                               payload = msg_payload message\<rparr>],
                        state := Closed\<rparr>) s
           | Ping \<Rightarrow>
               update_conn conn_id
                 (\<lambda>c. c\<lparr>ws_message_parser := rest,
                        send_buffer := send_buffer c
                          @ [to_string \<lparr>fin = True, opcode = OpPong, payload = []\<rparr>],
                        frames_queued := frames_queued c
                          @ [\<lparr>fin = True, opcode = OpPong, payload = []\<rparr>]\<rparr>) s
           | Pong \<Rightarrow>
               update_conn conn_id (\<lambda>c. c\<lparr>ws_message_parser := rest\<rparr>) s))"
    by (cases "msg_type message")
       (simp_all add: read_action_def at_present handle_message_def queued update_conn_twice
          comp_def)
qed

text \<open>
  C2, as stated (every message the parser completes from the bytes is handled within that
  dispatch), fails: of two Text messages completed by one read, the dispatch delivers the
  first and leaves the second in the parser's queue.
\<close>

theorem one_dispatch_handles_one_message:
  "read_action sample_server 0 ''x'' [] (Completes [text_a, text_b])
     = Inr (Continue, sample_server_after_text_a) \<and>
   upcalls sample_server_after_text_a = [open_callback 0, message_callback 0 text_a] \<and>
   message_callback 0 text_b \<notin> set (upcalls sample_server_after_text_a) \<and>
   map_of (connections sample_server_after_text_a) 0
     = Some (sample_connection\<lparr>ws_message_parser := [text_b]\<rparr>)"
  by (simp add: read_action_def at_def handle_message_def sample_server_def
        sample_connection_def sample_server_after_text_a_def update_conn_def modify_def
        text_a_def text_b_def)

theorem connected_read_handles_front_message_witness:
  "map_of (connections sample_server) 0 = Some sample_connection \<and>
   state sample_connection = Connected \<and>
   read_action sample_server 0 ''x'' [] (Completes [text_a, text_b])
     = Inr (Continue,
         (update_conn 0 (\<lambda>c. c\<lparr>ws_message_parser := [text_b]\<rparr>) sample_server)
           \<lparr>upcalls := upcalls sample_server @ [message_callback 0 text_a]\<rparr>)"
proof -
  have present: "map_of (connections sample_server) 0 = Some sample_connection"
    by (simp add: sample_server_def)
  have connected: "state sample_connection = Connected"
    by (simp add: sample_connection_def)
  have data: "''x'' \<noteq> []"
    by simp
  have queue: "ws_message_parser sample_connection @ [text_a, text_b] = text_a # [text_b]"
    by (simp add: sample_connection_def)
  from connected_read_handles_front_message [OF present connected data,
      of "[text_a, text_b]" "[]" text_a "[text_b]"] queue
  have "read_action sample_server 0 ''x'' [] (Completes [text_a, text_b])
     = Inr (Continue,
         (update_conn 0 (\<lambda>c. c\<lparr>ws_message_parser := [text_b]\<rparr>) sample_server)
           \<lparr>upcalls := upcalls sample_server @ [message_callback 0 text_a]\<rparr>)"
    by (simp add: text_a_def)
  with present connected show ?thesis
    by blast
qed

section \<open>Close frames over the life of a connection\<close>

lemma conn_update_conn [simp]:
  "map_of (connections (update_conn k f s)) k' =
     (if k' = k then map_option f (map_of (connections s) k) else map_of (connections s) k')"
  by (simp add: update_conn_def map_of_modify)

lemma conn_drop_connection [simp]:
  "map_of (connections (drop_connection s k)) k' =
     (if k' = k then map_option (\<lambda>c. c\<lparr>state := Closed\<rparr>) (map_of (connections s) k)
      else map_of (connections s) k')"
  by (auto simp: drop_connection_def split: option.splits)

lemma at_Inr: "at m k = Inr c \<longleftrightarrow> map_of m k = Some c"
  by (simp add: at_def split: option.splits)

lemma keeps_close_bound_refl [simp]: "keeps_close_bound 0 s s k"
  by (simp add: keeps_close_bound_def split: option.splits)

lemma keeps_close_bound_trans:
  "keeps_close_bound d1 s s1 k \<Longrightarrow> keeps_close_bound d2 s1 s2 k \<Longrightarrow>
     keeps_close_bound (d1 + d2) s s2 k"
  by (auto simp: keeps_close_bound_def add.assoc split: option.splits)

text \<open>
  \<open>queue_frame\<close> appends whatever frame it is given: a Close frame from the application
  raises the bound by one, any other frame leaves it.
\<close>

lemma queue_frame_bound:
  "queue_frame s k f = Inr (b, s') \<Longrightarrow>
     keeps_close_bound (if opcode f = OpClose then 1 else 0) s s' k"
  by (auto simp: queue_frame_def keeps_close_bound_def close_bound_def close_frames_def
        at_Inr split: sum.splits if_splits option.splits)

lemma close_connection_bound:
  "close_connection s k = Inr s' \<Longrightarrow> keeps_close_bound 0 s s' k"
  by (auto simp: close_connection_def queue_frame_def keeps_close_bound_def close_bound_def
        close_frames_def at_Inr split: sum.splits if_splits option.splits prod.splits)

lemma clear_buffer_bound:
  "clear_buffer s k = Inr s' \<Longrightarrow> keeps_close_bound 0 s s' k"
  by (auto simp: clear_buffer_def keeps_close_bound_def close_bound_def
        close_frames_def at_Inr split: sum.splits if_splits option.splits SocketType.splits)

lemma handle_handshake_bound:
  "handle_handshake s k q = Inr (r, s') \<Longrightarrow>
     \<forall>c. map_of (connections s) k = Some c \<longrightarrow> state c = NotConnected \<Longrightarrow>
     keeps_close_bound 0 s s' k"
  by (auto simp: handle_handshake_def keeps_close_bound_def close_bound_def
        split: list.splits sum.splits if_splits option.splits)

lemma handle_message_bound:
  "handle_message s k q = Inr (r, s') \<Longrightarrow>
     \<forall>c. map_of (connections s) k = Some c \<longrightarrow> state c = Connected \<Longrightarrow>
     keeps_close_bound 0 s s' k"
  by (auto simp: handle_message_def queue_frame_def keeps_close_bound_def close_bound_def
        close_frames_def at_Inr
        split: list.splits sum.splits if_splits option.splits MessageType.splits prod.splits)

lemma handle_closing_bound:
  "handle_closing s k q = Inr (r, s') \<Longrightarrow> keeps_close_bound 0 s s' k"
  by (auto simp: handle_closing_def keeps_close_bound_def close_bound_def
        split: list.splits MessageType.splits option.splits)

lemma drop_connection_bound: "keeps_close_bound 0 s (drop_connection s k) k"
  by (auto simp: keeps_close_bound_def close_bound_def split: option.splits)

lemma read_action_bound:
  "read_action s k data reqs msgs = Inr (r, s') \<Longrightarrow> keeps_close_bound 0 s s' k"
  by (auto simp: read_action_def at_Inr
        split: sum.splits if_splits State.splits parsed.splits
        intro: drop_connection_bound handle_handshake_bound handle_message_bound
               handle_closing_bound close_connection_bound)

lemma Connection_write_history [simp]:
  "frames_queued (Connection_write st c) = frames_queued c"
  "state (Connection_write st c) = state c"
  by (simp_all add: Connection_write_def split: prod.splits SocketType.splits)

lemma write_action_bound:
  "write_action s k = Inr (r, s') \<Longrightarrow> keeps_close_bound 0 s s' k"
  by (auto simp: write_action_def Let_def at_Inr keeps_close_bound_def close_bound_def
        split: sum.splits if_splits option.splits)

lemma map_sum_snd_Inr: "map_sum id snd x = Inr s' \<longleftrightarrow> (\<exists>r. x = Inr (r, s'))"
  by (cases x) auto

lemma app_closes_Cons: "app_closes (op # ops) = app_closes [op] + app_closes ops"
  by (simp add: app_closes_def)

lemma apply_op_bound:
  "apply_op s k op = Inr s' \<Longrightarrow> keeps_close_bound (app_closes [op]) s s' k"
proof (cases op)
  case (QueueFrame f)
  assume "apply_op s k op = Inr s'"
  with QueueFrame obtain b where "queue_frame s k f = Inr (b, s')"
    by (auto simp: apply_op_def map_sum_snd_Inr)
  from queue_frame_bound [OF this] QueueFrame show ?thesis
    by (cases "opcode f = OpClose") (simp_all add: app_closes_def)
next
  case CloseConnection
  assume "apply_op s k op = Inr s'"
  with CloseConnection show ?thesis
    by (auto simp: apply_op_def app_closes_def dest: close_connection_bound)
next
  case ClearBuffer
  assume "apply_op s k op = Inr s'"
  with ClearBuffer show ?thesis
    by (auto simp: apply_op_def app_closes_def dest: clear_buffer_bound)
next
  case (ReadFire data reqs msgs)
  assume "apply_op s k op = Inr s'"
  with ReadFire show ?thesis
    by (auto simp: apply_op_def app_closes_def map_sum_snd_Inr dest: read_action_bound)
next
  case WriteFire
  assume "apply_op s k op = Inr s'"
  with WriteFire show ?thesis
    by (auto simp: apply_op_def app_closes_def map_sum_snd_Inr dest: write_action_bound)
qed

lemma lifetime_bound:
  "lifetime s k ops = Inr s' \<Longrightarrow> keeps_close_bound (app_closes ops) s s' k"
proof (induction ops arbitrary: s)
  case Nil
  then show ?case by (simp add: app_closes_def)
next
  case (Cons op ops)
  from Cons.prems obtain s1 where first: "apply_op s k op = Inr s1"
    and rest: "lifetime s1 k ops = Inr s'"
    by (auto split: sum.splits)
  from apply_op_bound [OF first] Cons.IH [OF rest]
  have "keeps_close_bound (app_closes [op] + app_closes ops) s s' k"
    by (rule keeps_close_bound_trans)
  then show ?case
    by (simp add: app_closes_Cons [of op ops])
qed

text \<open>
  C9, as the code has it. From its insertion on, through any sequence of application calls
  and action fires, the server itself queues at most one Close frame on a connection: the
  one \<open>close_connection\<close> queues (the state going from Connected to Closing) or the one
  the Connected read path queues to echo a client's Close (the state going to Closed). So
  the Close frames ever queued are at most one more than the Close frames the application
  has passed to \<open>queue_frame\<close>, which appends any frame while the state is Connected; and
  when they are one more, the state is Closing or Closed.
\<close>

theorem server_queues_at_most_one_close:
  assumes "map_of (connections s) conn_id = Some (new_Connection sock)"
    and "lifetime s conn_id ops = Inr s'"
  shows "\<exists>conn'. map_of (connections s') conn_id = Some conn' \<and>
           close_frames (frames_queued conn') \<le> app_closes ops + 1 \<and>
           (app_closes ops < close_frames (frames_queued conn') \<longrightarrow>
              state conn' = Closing \<or> state conn' = Closed) \<and>
           close_frames_after s conn_id ops = Some (close_frames (frames_queued conn'))"
proof -
  have "close_bound 0 (new_Connection sock)"
    by (simp add: close_bound_def close_frames_def new_Connection_def)
  with lifetime_bound [OF assms(2)] assms(1)
  obtain conn' where "map_of (connections s') conn_id = Some conn'"
    "close_bound (app_closes ops) conn'"
    by (auto simp: keeps_close_bound_def split: option.splits)
  with assms(2) show ?thesis
    by (auto simp: close_bound_def close_frames_after_def close_frames_of_def)
qed

lemma sample_response_created: "create_handshake_response sample_request = Inr sample_response"
proof -
  have "base64 (sha1 (''dGhlIHNhbXBsZSBub25jZQ=='' @ WS_MAGIC_STRING)) = ''s3pPLMBiTxaQ9kYGzzhZRbK+xOo=''"
    using sample_accept by (simp only: sample_key_def)
  then show ?thesis
    using sample_request_valid
    by (simp only: create_handshake_response_def)
       (simp add: sample_response_def read_in_body_def add_header_def set_first_line_def
          set_request_def empty_response_def)
qed

lemma sample_response_status: "status_code sample_response = ''101''"
  by (simp add: status_code_def sample_response_def)

lemma accepted_server_eq:
  "accepted_server =
     (new_WSServer TCPSocket ''0.0.0.0:9361'')
       \<lparr>last_connection_id := 1, connections := [(0, new_Connection open_socket)]\<rparr>"
  by (simp add: accepted_server_def accept_def emplace_def new_WSServer_def
        init_listener_socket_def MAX_CONNECTION_NUM_def)

lemma accepted_fresh: "map_of (connections accepted_server) 0 = Some (new_Connection open_socket)"
  by (simp add: accepted_server_eq)

lemma handshake_read:
  "read_action accepted_server 0 ''GET /chat HTTP/1.1'' [sample_request] (Completes [])
     = Inr (Continue,
         accepted_server
           \<lparr>connections :=
              [(0, (new_Connection open_socket)
                     \<lparr>state := Connecting, send_buffer := [str sample_response]\<rparr>)]\<rparr>)"
proof -
  have "handle_handshake accepted_server 0 [sample_request]
          = Inr (Continue,
              update_conn 0
                (\<lambda>c. c\<lparr>ws_handshake_parser := [],
                       send_buffer := send_buffer c @ [str sample_response],
                       state := Connecting\<rparr>) accepted_server)"
    by (simp add: handle_handshake_def sample_response_created sample_response_status)
  then show ?thesis
    by (simp add: read_action_def at_def accepted_fresh new_Connection_def)
       (simp add: update_conn_def modify_def accepted_server_eq new_Connection_def)
qed

lemma handshake_write:
  "write_action
     (accepted_server
        \<lparr>connections :=
           [(0, (new_Connection open_socket)
                  \<lparr>state := Connecting, send_buffer := [str sample_response]\<rparr>)]\<rparr>) 0
     = Inr (Continue, connected_server)"
proof -
  have len: "length (str sample_response) \<le> 1000"
    by (simp add: str_def sample_response_def CRLF_def)
  have "write_TCPSocket [str sample_response] open_socket
          = ([], open_socket\<lparr>wire := str sample_response, accepts := []\<rparr>)"
    using len by (simp add: socket_write_def open_socket_def Let_def min_def)
  then show ?thesis
    by (simp add: write_action_def at_def Let_def data_to_send_def socket_buffer_bytes_def
          Connection_write_def new_Connection_def update_conn_def modify_def
          connected_server_def connected_connection_def accepted_server_eq new_WSServer_def
          init_listener_socket_def)
qed

lemma handshake_run: "lifetime accepted_server 0 handshake_ops = Inr connected_server"
  by (simp add: handshake_ops_def apply_op_def handshake_read handshake_write)

lemma lifetime_append:
  "lifetime s k (xs @ ys) =
     (case lifetime s k xs of Inl e \<Rightarrow> Inl e | Inr s1 \<Rightarrow> lifetime s1 k ys)"
  by (induction xs arbitrary: s) (auto split: sum.splits)


lemma connected_entry: "map_of (connections connected_server) 0 = Some connected_connection"
  by (simp add: connected_server_def)

lemma two_closes_run:
  "lifetime connected_server 0 [QueueFrame close_frame, QueueFrame close_frame]
     = Inr two_closes_server"
  by (simp add: apply_op_def queue_frame_def at_def connected_entry update_conn_def modify_def
        connected_server_def connected_connection_def two_closes_server_def)

text \<open>
  C9, as stated (at most one Close frame is ever appended to the send buffer), fails:
  \<open>queue_frame\<close> does not look at the opcode, so an application that calls it twice with a
  Close frame on a Connected connection has two Close frames in the send buffer. The
  connection here is accepted by the constructed server and taken through the handshake.
\<close>

theorem application_close_frames_accumulate:
  "lifetime accepted_server 0 (handshake_ops @ [QueueFrame close_frame, QueueFrame close_frame])
     = Inr two_closes_server \<and>
   map_of (connections two_closes_server) 0
     = Some (connected_connection
               \<lparr>send_buffer := [to_string close_frame, to_string close_frame],
                frames_queued := [close_frame, close_frame]\<rparr>) \<and>
   opcode close_frame = OpClose \<and>
   close_frames_after accepted_server 0
     (handshake_ops @ [QueueFrame close_frame, QueueFrame close_frame]) = Some 2"
proof -
  have run: "lifetime accepted_server 0
               (handshake_ops @ [QueueFrame close_frame, QueueFrame close_frame])
             = Inr two_closes_server"
    by (simp only: lifetime_append handshake_run two_closes_run sum.case)
  have entry: "map_of (connections two_closes_server) 0
     = Some (connected_connection
               \<lparr>send_buffer := [to_string close_frame, to_string close_frame],
                frames_queued := [close_frame, close_frame]\<rparr>)"
    by (simp add: two_closes_server_def)
  have "close_frames_of two_closes_server 0 = Some 2"
    by (simp add: close_frames_of_def entry close_frames_def close_frame_def)
  with run entry show ?thesis
    by (simp add: close_frames_after_def close_frame_def)
qed

lemma closing_run: "lifetime connected_server 0 closing_ops = Inr echoed_close_server"
proof -
  let ?c1 = "connected_connection
               \<lparr>send_buffer := [to_string text_frame], frames_queued := [text_frame]\<rparr>"
  let ?s1 = "connected_server\<lparr>connections := [(0, ?c1)]\<rparr>"
  have q: "queue_frame connected_server 0 text_frame = Inr (True, ?s1)"
    by (simp add: queue_frame_def at_def connected_entry update_conn_def modify_def
          connected_server_def connected_connection_def)
  have r: "read_action ?s1 0 ''x'' [] (Completes [client_close]) = Inr (Continue, echoed_close_server)"
    by (simp add: read_action_def at_def handle_message_def queue_frame_def update_conn_def
          modify_def connected_connection_def client_close_def echoed_close_server_def)
  have c: "close_connection echoed_close_server 0 = Inr echoed_close_server"
    by (simp add: close_connection_def at_def echoed_close_server_def)
  have w: "write_action echoed_close_server 0 = Inr (Continue, echoed_close_server)"
    by (simp add: write_action_def at_def Let_def data_to_send_def Connection_write_def
          socket_write_def update_conn_def modify_def to_string_def
          echoed_close_server_def connected_connection_def connected_server_def
          open_socket_def accepted_server_eq new_WSServer_def init_listener_socket_def)
  show ?thesis
    by (simp add: closing_ops_def apply_op_def q r c w)
qed

lemma app_close_then_echo_run:
  "lifetime connected_server 0 app_close_then_echo_ops = Inr app_close_then_echo_server"
proof -
  let ?c1 = "connected_connection
               \<lparr>send_buffer := [to_string close_frame], frames_queued := [close_frame]\<rparr>"
  let ?s1 = "connected_server\<lparr>connections := [(0, ?c1)]\<rparr>"
  have q: "queue_frame connected_server 0 close_frame = Inr (True, ?s1)"
    by (simp add: queue_frame_def at_def connected_entry update_conn_def modify_def
          connected_server_def connected_connection_def)
  have r: "read_action ?s1 0 ''x'' [] (Completes [client_close])
             = Inr (Continue, app_close_then_echo_server)"
    by (simp add: read_action_def at_def handle_message_def queue_frame_def update_conn_def
          modify_def connected_connection_def client_close_def app_close_then_echo_server_def)
  show ?thesis
    by (simp add: app_close_then_echo_ops_def apply_op_def q r)
qed

theorem server_queues_at_most_one_close_witness:
  "map_of (connections accepted_server) 0 = Some (new_Connection open_socket) \<and>
   lifetime accepted_server 0 (handshake_ops @ closing_ops) = Inr echoed_close_server \<and>
   app_closes (handshake_ops @ closing_ops) = 0 \<and>
   close_frames_after accepted_server 0 (handshake_ops @ closing_ops) = Some 1 \<and>
   lifetime accepted_server 0 (handshake_ops @ app_close_then_echo_ops)
     = Inr app_close_then_echo_server \<and>
   app_closes (handshake_ops @ app_close_then_echo_ops) = 1 \<and>
   close_frames_after accepted_server 0 (handshake_ops @ app_close_then_echo_ops) = Some 2"
proof -
  have run1: "lifetime accepted_server 0 (handshake_ops @ closing_ops) = Inr echoed_close_server"
    by (simp only: lifetime_append handshake_run closing_run sum.case)
  have run2: "lifetime accepted_server 0 (handshake_ops @ app_close_then_echo_ops)
                = Inr app_close_then_echo_server"
    by (simp only: lifetime_append handshake_run app_close_then_echo_run sum.case)
  have apps: "app_closes (handshake_ops @ closing_ops) = 0"
    "app_closes (handshake_ops @ app_close_then_echo_ops) = 1"
    by (simp_all add: app_closes_def handshake_ops_def closing_ops_def
          app_close_then_echo_ops_def text_frame_def close_frame_def)
  from server_queues_at_most_one_close [OF accepted_fresh run1]
  obtain c1 where c1: "map_of (connections echoed_close_server) 0 = Some c1"
    and after1: "close_frames_after accepted_server 0 (handshake_ops @ closing_ops)
                   = Some (close_frames (frames_queued c1))"
    by blast
  from c1 have n1: "close_frames (frames_queued c1) = 1"
    by (auto simp: echoed_close_server_def close_frames_def text_frame_def)
  from server_queues_at_most_one_close [OF accepted_fresh run2]
  obtain c2 where c2: "map_of (connections app_close_then_echo_server) 0 = Some c2"
    and after2: "close_frames_after accepted_server 0 (handshake_ops @ app_close_then_echo_ops)
                   = Some (close_frames (frames_queued c2))"
    by blast
  from c2 have n2: "close_frames (frames_queued c2) = 2"
    by (auto simp: app_close_then_echo_server_def close_frames_def close_frame_def)
  from accepted_fresh run1 run2 apps after1 after2 n1 n2 show ?thesis
    by simp
qed

end
